theory Spec2Isabelle
  imports Complex_Main "HOL-Library.Word" "HOL-Library.Log_Nat"
begin

section \<open>JavaScript values\<close>

text \<open>
  A JavaScript string is a sequence of UTF-16 code units; \<open>length\<close> of the model is
  the \<open>.length\<close> that Zod's \<open>min\<close>/\<open>max\<close> and Mongoose's \<open>maxlength\<close> count.
  ASCII literals of the source are written with \<open>js\<close>.
\<close>

type_synonym code_unit = "16 word"
type_synonym js_string = "code_unit list"

definition js :: "string \<Rightarrow> js_string" where
  "js s = map (\<lambda>c. of_char c) s"

text \<open>
  A value of type \<open>string | undefined\<close> (an optional parameter or property) is a
  \<open>js_string option\<close> with \<open>None\<close> for \<open>undefined\<close>; a value of type
  \<open>string | null\<close> (a stored field) is a \<open>js_string option\<close> with \<open>None\<close> for
  \<open>null\<close>. A parameter of type \<open>string | null | undefined\<close> is a
  \<open>js_string option option\<close>: \<open>None\<close> is \<open>undefined\<close>, \<open>Some None\<close> is \<open>null\<close>.
\<close>

definition truthy :: "js_string option \<Rightarrow> bool" where
  "truthy v = (case v of None \<Rightarrow> False | Some s \<Rightarrow> s \<noteq> [])"

definition or_null :: "js_string option \<Rightarrow> js_string option" where
  \<comment> \<open>\<open>v || null\<close>\<close>
  "or_null v = (if truthy v then v else None)"

definition or_zero :: "int option \<Rightarrow> int" where
  \<comment> \<open>\<open>n || 0\<close> on an optional integer-valued number\<close>
  "or_zero n = (case n of None \<Rightarrow> 0 | Some k \<Rightarrow> if k \<noteq> 0 then k else 0)"

subsection \<open>Numbers\<close>

text \<open>
  A JavaScript number is an IEEE 754 binary64 value. Token counts are small integers, on
  which binary64 arithmetic is exact, and are modelled as \<open>int\<close>. The other numbers
  are modelled as \<open>Double m e\<close>, the value \<open>m * 2 ^ e\<close>: every finite binary64 value
  is of this form with \<open>\<bar>m\<bar> < 2 ^ 53\<close>. The exact product of two of them is of this
  form again, and \<open>to_double\<close> rounds one to 53 significant bits, to nearest and ties
  to even, as the operator \<open>*\<close> does. Overflow and subnormal numbers are left out:
  the magnitudes the job service computes are far from both.
\<close>

datatype double = Double int int

fun double_value :: "double \<Rightarrow> rat" where
  "double_value (Double m e) = of_int m * 2 powi e"

definition shift_round :: "int \<Rightarrow> nat \<Rightarrow> int" where
  \<comment> \<open>\<open>x / 2 ^ sh\<close> for \<open>0 \<le> x\<close>, rounded to the nearest integer, ties to even\<close>
  "shift_round x sh =
     (let q = x div 2 ^ sh; r = x mod 2 ^ sh
      in if 2 * r < 2 ^ sh then q
         else if 2 ^ sh < 2 * r then q + 1
         else if even q then q else q + 1)"

definition to_double :: "int \<Rightarrow> int \<Rightarrow> double" where
  \<comment> \<open>the binary64 value nearest to \<open>m * 2 ^ e\<close>\<close>
  "to_double m e =
     (let len = floorlog 2 (nat \<bar>m\<bar>)
      in if len \<le> 53 then Double m e
         else Double (sgn m * shift_round \<bar>m\<bar> (len - 53)) (e + int (len - 53)))"

fun js_times :: "double \<Rightarrow> double \<Rightarrow> double" where
  \<comment> \<open>the operator \<open>*\<close> on numbers\<close>
  "js_times (Double m1 e1) (Double m2 e2) = to_double (m1 * m2) (e1 + e2)"

fun math_floor :: "double \<Rightarrow> int" where
  "math_floor (Double m e) = (if 0 \<le> e then m * 2 ^ nat e else m div 2 ^ nat (- e))"

definition of_integer :: "int \<Rightarrow> double" where
  \<comment> \<open>an integer of magnitude below \<open>2 ^ 53\<close> as a number\<close>
  "of_integer n = Double n 0"

definition random_zero :: double where
  \<comment> \<open>the least value \<open>Math.random()\<close> can return\<close>
  "random_zero = of_integer 0"

definition cost_per_token :: double where
  \<comment> \<open>the literal \<open>0.00002\<close>: the binary64 value nearest to \<open>2 / 100000\<close>\<close>
  "cost_per_token = Double 5902958103587057 (- 68)"

subsection \<open>Request bodies\<close>

text \<open>JSON request bodies, as \<open>express.json()\<close> hands them to the routes.\<close>

datatype js_value =
    JUndefined
  | JNull
  | JBoolean bool
  | JNumber double
  | JString js_string
  | JArray "js_value list"
  | JObject "(js_string \<times> js_value) list"

definition get_prop :: "js_value \<Rightarrow> js_string \<Rightarrow> js_value" where
  \<comment> \<open>property read \<open>body.key\<close>: \<open>undefined\<close> when the key is absent\<close>
  "get_prop v k = (case v of
      JObject ps \<Rightarrow> (case map_of ps k of None \<Rightarrow> JUndefined | Some x \<Rightarrow> x)
    | _ \<Rightarrow> JUndefined)"

section \<open>The job model (\<open>models/job.model.ts\<close>)\<close>

datatype JobStatus = PENDING | COMPLETED | FAILED

record JobMetadata =
  promptTokens :: "int option"
  completionTokens :: "int option"
  totalTokens :: "int option"
  estimatedCost :: "double option"

record IJob =
  job_id :: js_string
  prompt :: js_string
  status :: JobStatus
  result :: "js_string option"
  error :: "js_string option"
  createdAt :: nat
  updatedAt :: nat
  metadata :: JobMetadata

definition empty_metadata :: JobMetadata where
  \<comment> \<open>the schema default \<open>() => ({})\<close>\<close>
  "empty_metadata =
     \<lparr>promptTokens = None, completionTokens = None, totalTokens = None, estimatedCost = None\<rparr>"

text \<open>
  \<open>String.prototype.trim\<close>, which the schema option \<open>trim: true\<close> applies to the
  prompt: it removes the white space and line terminator code units from both ends.
\<close>

definition is_white_space :: "code_unit \<Rightarrow> bool" where
  "is_white_space c \<longleftrightarrow>
     c \<in> {0x0009, 0x000A, 0x000B, 0x000C, 0x000D, 0x0020, 0x00A0, 0x1680,
          0x2028, 0x2029, 0x202F, 0x205F, 0x3000, 0xFEFF}
     \<or> (0x2000 \<le> c \<and> c \<le> 0x200A)"

definition trim :: "js_string \<Rightarrow> js_string" where
  "trim s = rev (dropWhile is_white_space (rev (dropWhile is_white_space s)))"

section \<open>The running application\<close>

text \<open>
  The state the backend works on: the \<open>jobs\<close> collection of the database, the
  bookkeeping set of \<open>MockJobQueue\<close>, the execution tasks that have been started and
  have not settled yet, and a journal of the effects in the order they happened (writes
  to the collection and starts of execution tasks).

  A document is kept under its id as \<open>_id.toString()\<close> prints it: the 24
  hexadecimal digits of the ObjectId, in lower case. The id a new document gets and the
  reading of the clock are inputs.
\<close>

datatype effect =
    DbInsert js_string
  | DbUpdate js_string
  | DbDelete js_string
  | TaskStarted js_string

record world =
  docs :: "js_string \<rightharpoonup> IJob"
  pendingJobs :: "js_string set"
  tasks :: "js_string list"
  journal :: "effect list"

definition init_world :: world where
  "init_world = \<lparr>docs = Map.empty, pendingJobs = {}, tasks = [], journal = []\<rparr>"

datatype app_error =
    ValidationError string
  | CastError
  | MongoServerError string
  | ApiError nat string

text \<open>
  Every query by id (\<open>findById\<close>, \<open>findByIdAndUpdate\<close>, \<open>findByIdAndDelete\<close>) first
  casts the id it is given to an ObjectId. A string of 24 hexadecimal digits, in either
  case, is cast to the ObjectId with these digits; for any other string the query throws
  a \<open>CastError\<close>.
\<close>

definition is_hex_digit :: "code_unit \<Rightarrow> bool" where
  "is_hex_digit c \<longleftrightarrow>
     (0x30 \<le> c \<and> c \<le> 0x39) \<or> (0x41 \<le> c \<and> c \<le> 0x46) \<or> (0x61 \<le> c \<and> c \<le> 0x66)"

definition lower_hex :: "code_unit \<Rightarrow> code_unit" where
  "lower_hex c = (if 0x41 \<le> c \<and> c \<le> 0x46 then c + 0x20 else c)"

definition castObjectId :: "js_string \<Rightarrow> app_error + js_string" where
  \<comment> \<open>the ObjectId an id string is cast to, as \<open>toString()\<close> prints it\<close>
  "castObjectId i =
     (if length i = 24 \<and> list_all is_hex_digit i then Inr (map lower_hex i) else Inl CastError)"

section \<open>The repository (\<open>repositories/job.repository.ts\<close>)\<close>

definition create :: "js_string \<Rightarrow> nat \<Rightarrow> world \<Rightarrow> js_string \<Rightarrow> app_error + (IJob \<times> world)" where
  \<comment> \<open>\<open>new Job({ prompt }).save()\<close>: the schema's setter (\<open>trim\<close>), its defaults, and
      on save its validators (\<open>required\<close>, which a string satisfies when it is not
      empty, and \<open>maxlength\<close>); the database refuses an insert under an id it already
      holds\<close>
  "create new_id now w p =
     (let job = \<lparr>job_id = new_id, prompt = trim p, status = PENDING, result = None,
                  error = None, createdAt = now, updatedAt = now, metadata = empty_metadata\<rparr>
      in if prompt job = [] then Inl (ValidationError ''Prompt is required'')
         else if 10000 < length (prompt job)
           then Inl (ValidationError ''Prompt cannot exceed 10000 characters'')
         else if docs w new_id \<noteq> None then Inl (MongoServerError ''E11000 duplicate key'')
         else Inr (job, w\<lparr>docs := (docs w)(new_id \<mapsto> job),
                          journal := journal w @ [DbInsert new_id]\<rparr>))"

definition findById :: "world \<Rightarrow> js_string \<Rightarrow> app_error + IJob option" where
  "findById w i =
     (case castObjectId i of
        Inl e \<Rightarrow> Inl e
      | Inr k \<Rightarrow> Inr (docs w k))"

definition updateStatus ::
  "nat \<Rightarrow> world \<Rightarrow> js_string \<Rightarrow> JobStatus \<Rightarrow> js_string option option \<Rightarrow>
   js_string option option \<Rightarrow> JobMetadata option \<Rightarrow> (app_error + IJob option) \<times> world" where
  \<comment> \<open>\<open>findByIdAndUpdate(id, { $set: updateData }, { new: true })\<close>; the schema
      option \<open>timestamps\<close> refreshes \<open>updatedAt\<close> on every update\<close>
  "updateStatus now w i st res err md =
     (case castObjectId i of
        Inl e \<Rightarrow> (Inl e, w)
      | Inr k \<Rightarrow>
          (case docs w k of
             None \<Rightarrow> (Inr None, w)
           | Some job \<Rightarrow>
               let j1 = job\<lparr>status := st\<rparr>;
                   j2 = (case res of None \<Rightarrow> j1 | Some r \<Rightarrow> j1\<lparr>result := r\<rparr>);
                   j3 = (case err of None \<Rightarrow> j2 | Some e \<Rightarrow> j2\<lparr>error := e\<rparr>);
                   j4 = (case md of None \<Rightarrow> j3 | Some m \<Rightarrow> j3\<lparr>metadata := m\<rparr>);
                   j5 = j4\<lparr>updatedAt := now\<rparr>
               in (Inr (Some j5),
                   w\<lparr>docs := (docs w)(k \<mapsto> j5), journal := journal w @ [DbUpdate k]\<rparr>)))"

definition delete :: "world \<Rightarrow> js_string \<Rightarrow> (app_error + bool) \<times> world" where
  \<comment> \<open>\<open>findByIdAndDelete(id)\<close>\<close>
  "delete w i =
     (case castObjectId i of
        Inl e \<Rightarrow> (Inl e, w)
      | Inr k \<Rightarrow>
          (case docs w k of
             None \<Rightarrow> (Inr False, w)
           | Some _ \<Rightarrow>
               (Inr True,
                w\<lparr>docs := (docs w)(k := None), journal := journal w @ [DbDelete k]\<rparr>)))"

section \<open>The queue (\<open>queue/mock-job-queue.ts\<close>)\<close>

definition enqueue :: "world \<Rightarrow> js_string \<Rightarrow> world" where
  \<comment> \<open>adds the id to the set and starts \<open>processJob\<close> without awaiting it\<close>
  "enqueue w jobId =
     w\<lparr>pendingJobs := insert jobId (pendingJobs w),
       tasks := tasks w @ [jobId],
       journal := journal w @ [TaskStarted jobId]\<rparr>"

definition settle :: "world \<Rightarrow> js_string \<Rightarrow> world" where
  \<comment> \<open>an execution task ends: its \<open>finally\<close> handler deletes the id from the set\<close>
  "settle w jobId =
     w\<lparr>pendingJobs := pendingJobs w - {jobId}, tasks := remove1 jobId (tasks w)\<rparr>"

definition shutdown :: "world \<Rightarrow> world" where
  "shutdown w = w\<lparr>pendingJobs := {}\<rparr>"

section \<open>The service (\<open>services/job.service.ts\<close>)\<close>

definition createJob :: "js_string \<Rightarrow> nat \<Rightarrow> world \<Rightarrow> js_string \<Rightarrow> (app_error + IJob) \<times> world" where
  "createJob new_id now w p =
     (case create new_id now w p of
        Inl e \<Rightarrow> (Inl e, w)
      | Inr (job, w1) \<Rightarrow> (Inr job, enqueue w1 (job_id job)))"

definition mock_metadata :: "double \<Rightarrow> double \<Rightarrow> JobMetadata" where
  \<comment> \<open>\<open>u1\<close>, \<open>u2\<close> are the two values \<open>Math.random()\<close> returns\<close>
  "mock_metadata u1 u2 =
     (let m0 = \<lparr>promptTokens = Some (math_floor (js_times u1 (of_integer 100)) + 10),
                 completionTokens = Some (math_floor (js_times u2 (of_integer 200)) + 50),
                 totalTokens = Some 0,
                 estimatedCost = Some (of_integer 0)\<rparr>;
          m1 = m0\<lparr>totalTokens := Some (or_zero (promptTokens m0) + or_zero (completionTokens m0))\<rparr>
      in m1\<lparr>estimatedCost :=
             map_option (\<lambda>t. js_times (of_integer t) cost_per_token) (totalTokens m1)\<rparr>)"

definition handleWebhookCallback ::
  "double \<Rightarrow> double \<Rightarrow> nat \<Rightarrow> world \<Rightarrow> js_string \<Rightarrow> js_string option \<Rightarrow> js_string option \<Rightarrow>
   (app_error + IJob option) \<times> world" where
  "handleWebhookCallback u1 u2 now w jobId res err =
     (case findById w jobId of
        Inl e \<Rightarrow> (Inl e, w)
      | Inr None \<Rightarrow> (Inr None, w)
      | Inr (Some existingJob) \<Rightarrow>
          if status existingJob \<noteq> PENDING then (Inr (Some existingJob), w)
          else let st = (if truthy err then FAILED else COMPLETED)
               in updateStatus now w jobId st (Some (or_null res)) (Some (or_null err))
                    (Some (mock_metadata u1 u2)))"

definition malformed_result :: js_string where
  \<open>malformed_result = js ''{"invalid_json": this is not valid''\<close>

definition simulateHallucination ::
  "nat \<Rightarrow> world \<Rightarrow> js_string \<Rightarrow> (app_error + IJob option) \<times> world" where
  "simulateHallucination now w jobId =
     updateStatus now w jobId COMPLETED (Some (Some malformed_result)) (Some None) None"

definition deleteJob :: "world \<Rightarrow> js_string \<Rightarrow> (app_error + bool) \<times> world" where
  "deleteJob w i = delete w i"

text \<open>The record an id string names, if it names one.\<close>

definition stored :: "world \<Rightarrow> js_string \<Rightarrow> IJob option" where
  "stored w i = (case castObjectId i of Inl _ \<Rightarrow> None | Inr k \<Rightarrow> docs w k)"

section \<open>Request validation (\<open>schemas/job.schema.ts\<close>)\<close>

text \<open>
  A Zod schema applied to a request body yields the parsed data or a list of issues.
  An issue about the type of a field ends the parse; the other checks (\<open>min\<close>,
  \<open>max\<close>, \<open>refine\<close>) run on a body whose fields have the right types.
\<close>

datatype zod_issue =
    invalid_type "string list"
  | too_small "string list" string
  | too_big "string list" string
  | custom string

definition z_string :: "string list \<Rightarrow> js_value \<Rightarrow> zod_issue list" where
  \<comment> \<open>\<open>z.string()\<close>\<close>
  "z_string path v = (case v of JString _ \<Rightarrow> [] | _ \<Rightarrow> [invalid_type path])"

definition z_string_optional :: "string list \<Rightarrow> js_value \<Rightarrow> zod_issue list" where
  \<comment> \<open>\<open>z.string().optional()\<close>\<close>
  "z_string_optional path v =
     (case v of JUndefined \<Rightarrow> [] | JString _ \<Rightarrow> [] | _ \<Rightarrow> [invalid_type path])"

definition as_string :: "js_value \<Rightarrow> js_string option" where
  \<comment> \<open>a value that is a string or \<open>undefined\<close>\<close>
  "as_string v = (case v of JString s \<Rightarrow> Some s | _ \<Rightarrow> None)"

definition createJobSchema :: "js_value \<Rightarrow> zod_issue list + js_string" where
  "createJobSchema body =
     (case body of
        JObject _ \<Rightarrow>
          (case get_prop body (js ''prompt'') of
             JString p \<Rightarrow>
               if length p < 1 then Inl [too_small [''prompt''] ''Prompt cannot be empty'']
               else if 10000 < length p
                 then Inl [too_big [''prompt''] ''Prompt cannot exceed 10000 characters'']
               else Inr p
           | _ \<Rightarrow> Inl [invalid_type [''prompt'']])
      | _ \<Rightarrow> Inl [invalid_type []])"

record WebhookCallbackInput =
  cb_jobId :: js_string
  cb_result :: "js_string option"
  cb_error :: "js_string option"

definition webhookCallbackSchema :: "js_value \<Rightarrow> zod_issue list + WebhookCallbackInput" where
  "webhookCallbackSchema body =
     (case body of
        JObject _ \<Rightarrow>
          let jobId = get_prop body (js ''jobId'');
              res = get_prop body (js ''result'');
              err = get_prop body (js ''error'');
              type_issues = z_string [''jobId''] jobId @ z_string_optional [''result''] res
                              @ z_string_optional [''error''] err
          in if type_issues \<noteq> [] then Inl type_issues
             else
               let data = \<lparr>cb_jobId = (case jobId of JString s \<Rightarrow> s | _ \<Rightarrow> []),
                            cb_result = as_string res, cb_error = as_string err\<rparr>;
                   issues =
                     (if length (cb_jobId data) < 1
                      then [too_small [''jobId''] ''Job ID is required''] else [])
                     @ (if cb_result data \<noteq> None \<or> cb_error data \<noteq> None then []
                        else [custom ''Either result or error must be provided''])
               in if issues = [] then Inr data else Inl issues
      | _ \<Rightarrow> Inl [invalid_type []])"

section \<open>The HTTP layer\<close>

datatype payload =
    ErrorPayload string
  | IssuesPayload "zod_issue list"
  | CallbackPayload js_string JobStatus nat
  | JobPayload IJob

datatype response = Response nat payload

datatype header = HeaderAbsent | HeaderValue js_string | HeaderList "js_string list"

definition webhookAuth :: "js_string \<Rightarrow> header \<Rightarrow> response option" where
  \<comment> \<open>\<open>middleware/webhook-auth.ts\<close>; \<open>None\<close> is \<open>next()\<close>\<close>
  "webhookAuth secret providedSecret =
     (case providedSecret of
        HeaderAbsent \<Rightarrow> Some (Response 401 (ErrorPayload ''Missing X-Shared-Secret header''))
      | HeaderList _ \<Rightarrow> Some (Response 401 (ErrorPayload ''Invalid X-Shared-Secret header format''))
      | HeaderValue s \<Rightarrow>
          if s = [] then Some (Response 401 (ErrorPayload ''Missing X-Shared-Secret header''))
          else if s \<noteq> secret then Some (Response 403 (ErrorPayload ''Invalid X-Shared-Secret''))
          else None)"

definition validateBody :: "(js_value \<Rightarrow> zod_issue list + 'a) \<Rightarrow> js_value \<Rightarrow> response + 'a" where
  \<comment> \<open>Modelled from the spec: the middleware \<open>middleware/validate.ts\<close> is not among the
      sources. A body the schema rejects is answered as a validation error (status 400)
      and does not reach the controller; a body it accepts is handed on as parsed.\<close>
  "validateBody schema body =
     (case schema body of
        Inl issues \<Rightarrow> Inl (Response 400 (IssuesPayload issues))
      | Inr data \<Rightarrow> Inr data)"

definition errorHandler :: "bool \<Rightarrow> app_error \<Rightarrow> response" where
  \<comment> \<open>\<open>middleware/error-handler.ts\<close>; the flag is \<open>NODE_ENV === 'production'\<close>\<close>
  "errorHandler production err =
     (case err of
        ApiError statusCode message \<Rightarrow> Response statusCode (ErrorPayload message)
      | ValidationError _ \<Rightarrow> Response 400 (ErrorPayload ''Validation failed'')
      | CastError \<Rightarrow> Response 400 (ErrorPayload ''Invalid ID format'')
      | MongoServerError message \<Rightarrow>
          Response 500 (ErrorPayload (if production then ''Internal server error'' else message)))"

subsection \<open>The controller (\<open>controllers/job.controller.ts\<close>)\<close>

text \<open>
  A handler calls the service inside \<open>try\<close>; what the service throws, and the
  \<open>ApiError\<close> the handler throws itself for a missing job, goes through \<open>next(error)\<close>
  to \<open>errorHandler\<close>.
\<close>

definition JobController_webhookCallback ::
  "bool \<Rightarrow> double \<Rightarrow> double \<Rightarrow> nat \<Rightarrow> world \<Rightarrow> WebhookCallbackInput \<Rightarrow> response \<times> world" where
  "JobController_webhookCallback production u1 u2 now w body =
     (case handleWebhookCallback u1 u2 now w (cb_jobId body) (cb_result body) (cb_error body) of
        (Inl e, w') \<Rightarrow> (errorHandler production e, w')
      | (Inr None, w') \<Rightarrow> (errorHandler production (ApiError 404 ''Job not found''), w')
      | (Inr (Some job), w') \<Rightarrow>
          (Response 200 (CallbackPayload (job_id job) (status job) (updatedAt job)), w'))"

definition JobController_simulateHallucination ::
  "bool \<Rightarrow> nat \<Rightarrow> world \<Rightarrow> js_string \<Rightarrow> response \<times> world" where
  "JobController_simulateHallucination production now w i =
     (case simulateHallucination now w i of
        (Inl e, w') \<Rightarrow> (errorHandler production e, w')
      | (Inr None, w') \<Rightarrow> (errorHandler production (ApiError 404 ''Job not found''), w')
      | (Inr (Some job), w') \<Rightarrow> (Response 200 (JobPayload job), w'))"

subsection \<open>The callback route (\<open>routes/webhook.routes.ts\<close>)\<close>

definition post_webhook_callback ::
  "js_string \<Rightarrow> bool \<Rightarrow> double \<Rightarrow> double \<Rightarrow> nat \<Rightarrow> world \<Rightarrow> header \<Rightarrow> js_value \<Rightarrow> response \<times> world" where
  \<comment> \<open>\<open>router.post('/callback', webhookAuth, validateBody(webhookCallbackSchema),
      jobController.webhookCallback)\<close>\<close>
  "post_webhook_callback secret production u1 u2 now w providedSecret body =
     (case webhookAuth secret providedSecret of
        Some r \<Rightarrow> (r, w)
      | None \<Rightarrow>
          (case validateBody webhookCallbackSchema body of
             Inl r \<Rightarrow> (r, w)
           | Inr data \<Rightarrow> JobController_webhookCallback production u1 u2 now w data))"

section \<open>The execution task (\<open>MockJobQueue.processJob\<close>)\<close>

text \<open>
  What the task awaits is outside the queue: the prompt lookup of the configuration, the
  processor, and \<open>fetch\<close>. Each may resolve or reject; a rejection carries the value
  thrown, an \<open>Error\<close> with its message or some other value. \<open>fetch\<close> resolves
  with a response, of which the task reads the status (\<open>response.ok\<close> is a status
  from 200 to 299), and rejects when the request cannot be carried out. After an ok
  response the task logs the completion with \<open>aiResult.metadata.processingTimeMs\<close> and
  \<open>aiResult.metadata.totalTokens\<close>, still inside \<open>try\<close>: reading a property of
  \<open>undefined\<close> or \<open>null\<close> throws a \<open>TypeError\<close>.
  The task yields the requests it has sent, in order, what it has written with
  \<open>console.error\<close> and at its end with \<open>console.log\<close>, and the way its promise
  settles.
\<close>

datatype thrown = ErrorObject js_string | OtherValue

datatype 'a outcome = Resolves 'a | Rejects thrown

record AIProcessingResult =
  ai_result :: js_string
  ai_metadata :: js_value

record JobQueueConfig =
  webhookCallbackUrl :: js_string
  webhookSecret :: js_string

record http_request =
  request_url :: js_string
  shared_secret :: js_string
  request_body :: js_value

record environment =
  promptFetcher :: "js_string \<Rightarrow> js_string option outcome"
  process :: "js_string \<Rightarrow> js_string \<Rightarrow> AIProcessingResult outcome"
  fetch :: "http_request \<Rightarrow> nat outcome"

definition response_ok :: "nat \<Rightarrow> bool" where
  "response_ok st \<longleftrightarrow> 200 \<le> st \<and> st \<le> 299"

definition post :: "JobQueueConfig \<Rightarrow> js_value \<Rightarrow> http_request" where
  "post cfg body =
     \<lparr>request_url = webhookCallbackUrl cfg, shared_secret = webhookSecret cfg,
      request_body = body\<rparr>"

definition success_report :: "js_string \<Rightarrow> AIProcessingResult \<Rightarrow> js_value" where
  \<comment> \<open>the body \<open>{jobId, result, metadata}\<close> as \<open>JSON.stringify\<close> sends it: a property
      that is \<open>undefined\<close> is left out\<close>
  "success_report jobId aiResult =
     JObject ([(js ''jobId'', JString jobId), (js ''result'', JString (ai_result aiResult))]
              @ (if ai_metadata aiResult = JUndefined then []
                 else [(js ''metadata'', ai_metadata aiResult)]))"

definition error_message :: "thrown \<Rightarrow> js_string" where
  \<comment> \<open>\<open>error instanceof Error ? error.message : 'Unknown error'\<close>\<close>
  "error_message e = (case e of ErrorObject m \<Rightarrow> m | OtherValue \<Rightarrow> js ''Unknown error'')"

definition failure_report :: "js_string \<Rightarrow> thrown \<Rightarrow> js_value" where
  "failure_report jobId e =
     JObject [(js ''jobId'', JString jobId), (js ''error'', JString (error_message e))]"

definition not_found_error :: "js_string \<Rightarrow> thrown" where
  \<comment> \<open>\<open>new Error(`Job ${jobId} not found or has no prompt`)\<close>\<close>
  "not_found_error jobId = ErrorObject (js ''Job '' @ jobId @ js '' not found or has no prompt'')"

definition nullish :: "js_value \<Rightarrow> bool" where
  "nullish v \<longleftrightarrow> v = JUndefined \<or> v = JNull"

definition metadata_type_error :: "js_value \<Rightarrow> thrown" where
  \<comment> \<open>the \<open>TypeError\<close> of reading \<open>metadata.processingTimeMs\<close> when \<open>metadata\<close> is
      \<open>undefined\<close> or \<open>null\<close>\<close>
  "metadata_type_error v =
     ErrorObject (js ''Cannot read properties of ''
       @ (if v = JNull then js ''null'' else js ''undefined'')
       @ js '' (reading '' @ [0x27] @ js ''processingTimeMs'' @ [0x27] @ js '')'')"

datatype console_line =
    WebhookCallbackFailed nat
  | JobCompleted
  | ErrorProcessingJob thrown
  | FailedToReportError thrown

type_synonym task_result = "http_request list \<times> console_line list \<times> unit outcome"

definition processJob_try :: "JobQueueConfig \<Rightarrow> environment \<Rightarrow> js_string \<Rightarrow> task_result" where
  \<comment> \<open>the \<open>try\<close> block\<close>
  "processJob_try cfg env jobId =
     (case promptFetcher env jobId of
        Rejects e \<Rightarrow> ([], [], Rejects e)
      | Resolves None \<Rightarrow> ([], [], Rejects (not_found_error jobId))
      | Resolves (Some p) \<Rightarrow>
          if p = []
          then ([], [], Rejects (not_found_error jobId))
          else
            (case process env jobId p of
               Rejects e \<Rightarrow> ([], [], Rejects e)
             | Resolves aiResult \<Rightarrow>
                 let req = post cfg (success_report jobId aiResult)
                 in (case fetch env req of
                       Rejects e \<Rightarrow> ([req], [], Rejects e)
                     | Resolves st \<Rightarrow>
                         if \<not> response_ok st
                         then ([req], [WebhookCallbackFailed st], Resolves ())
                         else if nullish (ai_metadata aiResult)
                         then ([req], [], Rejects (metadata_type_error (ai_metadata aiResult)))
                         else ([req], [JobCompleted], Resolves ()))))"

definition processJob :: "JobQueueConfig \<Rightarrow> environment \<Rightarrow> js_string \<Rightarrow> task_result" where
  "processJob cfg env jobId =
     (case processJob_try cfg env jobId of
        (sent, console, Resolves u) \<Rightarrow> (sent, console, Resolves u)
      | (sent, console, Rejects e) \<Rightarrow>
          let req = post cfg (failure_report jobId e)
          in (case fetch env req of
                Rejects webhookError \<Rightarrow>
                  (sent @ [req], console @ [ErrorProcessingJob e, FailedToReportError webhookError],
                   Resolves ())
              | Resolves _ \<Rightarrow> (sent @ [req], console @ [ErrorProcessingJob e], Resolves ())))"

section \<open>Histories of the job store\<close>

text \<open>
  The operations of the service that write to the collection, as events, and the
  state after a sequence of them, from the empty application.
\<close>

datatype event =
    CreateJob js_string nat js_string
  | HandleWebhookCallback double double nat js_string "js_string option" "js_string option"
  | SimulateHallucination nat js_string
  | DeleteJob js_string

fun step :: "world \<Rightarrow> event \<Rightarrow> world" where
  "step w (CreateJob new_id now p) = snd (createJob new_id now w p)"
| "step w (HandleWebhookCallback u1 u2 now jobId res err) =
     snd (handleWebhookCallback u1 u2 now w jobId res err)"
| "step w (SimulateHallucination now jobId) = snd (simulateHallucination now w jobId)"
| "step w (DeleteJob jobId) = snd (deleteJob w jobId)"

definition run :: "event list \<Rightarrow> world" where
  "run evs = foldl step init_world evs"

definition job_invariant :: "IJob \<Rightarrow> bool" where
  "job_invariant job =
     (case status job of
        PENDING \<Rightarrow> result job = None \<and> error job = None
      | COMPLETED \<Rightarrow> (result job \<noteq> None) \<noteq> (error job \<noteq> None)
      | FAILED \<Rightarrow> (result job \<noteq> None) \<noteq> (error job \<noteq> None))"

definition pending_invariant :: "IJob \<Rightarrow> bool" where
  "pending_invariant job = (status job = PENDING \<longrightarrow> result job = None \<and> error job = None)"

fun one_outcome :: "event \<Rightarrow> bool" where
  \<comment> \<open>a completion report with exactly one of \<open>result\<close> and \<open>error\<close> a non-empty string\<close>
  "one_outcome (HandleWebhookCallback u1 u2 now jobId res err) = (truthy res \<noteq> truthy err)"
| "one_outcome _ = True"

section \<open>Scenarios\<close>

subsection \<open>A job and its completion\<close>

text \<open>
  The prompt \<open>Summarize X\<close> is submitted and the record \<open>A\<close> is created; then the
  report with the result \<open>summary text\<close> arrives.
\<close>

definition job_A :: js_string where
  \<comment> \<open>the id of the record \<open>A\<close>\<close>
  "job_A = js ''507f1f77bcf86cd799439011''"

definition scenario_job :: IJob where
  "scenario_job =
     \<lparr>job_id = job_A, prompt = js ''Summarize X'', status = PENDING, result = None,
      error = None, createdAt = 1, updatedAt = 1, metadata = empty_metadata\<rparr>"

definition pending_world :: world where
  "pending_world = run [CreateJob job_A 1 (js ''Summarize X'')]"

definition completed_job :: IJob where
  "completed_job =
     scenario_job\<lparr>status := COMPLETED, result := Some (js ''summary text''),
       updatedAt := 2, metadata := mock_metadata random_zero random_zero\<rparr>"

definition completed_world :: world where
  "completed_world =
     step pending_world
       (HandleWebhookCallback random_zero random_zero 2 job_A (Some (js ''summary text'')) None)"

subsection \<open>Callback bodies\<close>

definition of_optional :: "js_string option \<Rightarrow> js_value" where
  \<comment> \<open>an optional string as the property holds it\<close>
  "of_optional v = (case v of None \<Rightarrow> JUndefined | Some s \<Rightarrow> JString s)"

definition both_body :: js_value where
  "both_body =
     JObject [(js ''jobId'', JString job_A), (js ''result'', JString (js ''ok'')),
              (js ''error'', JString (js ''boom''))]"

definition neither_body :: js_value where
  "neither_body = JObject [(js ''jobId'', JString job_A)]"

definition empty_error_body :: "js_string \<Rightarrow> js_value" where
  \<comment> \<open>the report \<open>{jobId, error: ""}\<close>\<close>
  "empty_error_body jobId = JObject [(js ''jobId'', JString jobId), (js ''error'', JString [])]"

definition example_secret :: js_string where
  "example_secret = js ''0123456789abcdef''"

subsection \<open>The record a report leaves\<close>

definition finalized ::
  "double \<Rightarrow> double \<Rightarrow> nat \<Rightarrow> IJob \<Rightarrow> js_string option \<Rightarrow> js_string option \<Rightarrow> IJob" where
  "finalized u1 u2 now job res err =
     job\<lparr>status := (if truthy err then FAILED else COMPLETED), result := or_null res,
         error := or_null err, metadata := mock_metadata u1 u2, updatedAt := now\<rparr>"

subsection \<open>Malformed results and blank prompts\<close>

definition unterminated_object :: "js_string \<Rightarrow> bool" where
  \<comment> \<open>a text that opens a JSON object and holds no closing brace: no JSON parser accepts it\<close>
  "unterminated_object s \<longleftrightarrow>
     s \<noteq> [] \<and> hd s = of_char CHR ''{'' \<and> of_char CHR ''}'' \<notin> set s"

definition blank_prompt :: js_string where
  \<comment> \<open>a prompt of one character, a space\<close>
  "blank_prompt = js '' ''"

subsection \<open>Environments of the execution task\<close>

definition example_config :: JobQueueConfig where
  "example_config =
     \<lparr>webhookCallbackUrl = js ''http://localhost:3001/webhook/callback'', webhookSecret = example_secret\<rparr>"

definition example_ai_result :: AIProcessingResult where
  "example_ai_result = \<lparr>ai_result = js ''summary text'', ai_metadata = JObject []\<rparr>"

definition rejecting_endpoint :: environment where
  "rejecting_endpoint =
     \<lparr>promptFetcher = (\<lambda>_. Resolves (Some (js ''Summarize X''))),
      process = (\<lambda>_ _. Resolves example_ai_result),
      fetch = (\<lambda>_. Resolves 500)\<rparr>"

definition metadata_less_backend :: environment where
  \<comment> \<open>a processor whose result carries no metadata, and an endpoint that answers 200\<close>
  "metadata_less_backend =
     \<lparr>promptFetcher = (\<lambda>_. Resolves (Some (js ''Summarize X''))),
      process = (\<lambda>_ _. Resolves \<lparr>ai_result = js ''summary text'', ai_metadata = JUndefined\<rparr>),
      fetch = (\<lambda>_. Resolves 200)\<rparr>"

definition failing_backend :: environment where
  "failing_backend =
     \<lparr>promptFetcher = (\<lambda>_. Resolves (Some (js ''Summarize X''))),
      process = (\<lambda>_ _. Rejects (ErrorObject (js ''backend down''))),
      fetch = (\<lambda>_. Rejects (ErrorObject (js ''fetch failed'')))\<rparr>"

subsection \<open>Histories\<close>

definition scenario_history :: "event list" where
  "scenario_history =
     [CreateJob job_A 1 (js ''Summarize X''),
      HandleWebhookCallback random_zero random_zero 2 job_A (Some (js ''summary text'')) None]"

definition both_history :: "event list" where
  "both_history =
     [CreateJob job_A 1 (js ''Summarize X''),
      HandleWebhookCallback random_zero random_zero 2 job_A (Some (js ''ok'')) (Some (js ''boom''))]"

subsection \<open>Reports with and without metadata\<close>

definition report_with_metadata :: js_value where
  "report_with_metadata =
     success_report job_A
       \<lparr>ai_result = js ''summary text'',
        ai_metadata = JObject [(js ''totalTokens'', JNumber (of_integer 7))]\<rparr>"

definition report_without_metadata :: js_value where
  "report_without_metadata =
     JObject [(js ''jobId'', JString job_A), (js ''result'', JString (js ''summary text''))]"

section \<open>Idempotent completion\<close>

lemma stored_cast:
  assumes "stored w i = Some job"
  obtains k where "castObjectId i = Inr k" and "docs w k = Some job"
  using assms by (auto simp: stored_def split: sum.splits)

lemma stored_eq_docs:
  assumes "castObjectId i = Inr k"
  shows "stored w i = docs w k"
  using assms by (simp add: stored_def)

lemma findById_stored:
  assumes "stored w i = Some job"
  shows "findById w i = Inr (Some job)"
  using assms by (auto simp: stored_def findById_def split: sum.splits)

lemma handleWebhookCallback_skip:
  assumes "stored w jobId = Some job" and "status job \<noteq> PENDING"
  shows "handleWebhookCallback u1 u2 now w jobId res err = (Inr (Some job), w)"
  using assms by (simp add: handleWebhookCallback_def findById_stored)

lemma handleWebhookCallback_absent:
  assumes "stored w jobId = None"
  shows "handleWebhookCallback u1 u2 now w jobId res err = (findById w jobId, w)"
  using assms
  by (auto simp: handleWebhookCallback_def findById_def stored_def split: sum.splits)

lemma updateStatus_stored:
  assumes "castObjectId i = Inr k" and "docs w k = Some job"
  shows "\<exists>job'. updateStatus now w i st res err md
           = (Inr (Some job'),
              w\<lparr>docs := (docs w)(k \<mapsto> job'), journal := journal w @ [DbUpdate k]\<rparr>)
         \<and> status job' = st"
  using assms by (simp add: updateStatus_def Let_def split: option.splits)

lemma handleWebhookCallback_finalizes:
  assumes "stored w jobId = Some job" and "status job = PENDING"
  shows "\<exists>job'. stored (snd (handleWebhookCallback u1 u2 now w jobId res err)) jobId = Some job'
           \<and> status job' \<in> {COMPLETED, FAILED}"
proof -
  let ?st = "if truthy err then FAILED else COMPLETED"
  from assms(1) obtain k where k: "castObjectId jobId = Inr k" and d: "docs w k = Some job"
    by (rule stored_cast)
  from updateStatus_stored [OF k d]
  obtain job' where u: "updateStatus now w jobId ?st (Some (or_null res)) (Some (or_null err))
        (Some (mock_metadata u1 u2))
      = (Inr (Some job'),
         w\<lparr>docs := (docs w)(k \<mapsto> job'), journal := journal w @ [DbUpdate k]\<rparr>)"
    and s: "status job' = ?st"
    by blast
  have "handleWebhookCallback u1 u2 now w jobId res err
      = (Inr (Some job'),
         w\<lparr>docs := (docs w)(k \<mapsto> job'), journal := journal w @ [DbUpdate k]\<rparr>)"
    using assms u by (simp add: handleWebhookCallback_def findById_stored)
  then show ?thesis using s k by (auto simp: stored_def)
qed

text \<open>
  C1. A completion report for a job whose stored status is terminal (\<open>COMPLETED\<close> or
  \<open>FAILED\<close>) changes nothing: the handler returns the stored record and leaves the
  application, the journal of writes included, as it was. A report for a \<open>PENDING\<close> job
  makes the stored status terminal. Hence a second report for the same job, applied after
  a first one, is a no-op, whatever the two reports carry:
  \<open>apply (apply job r1) r2 = apply job r1\<close>. The second application returns what
  \<open>findById\<close> returns, the stored record when the id names one.
\<close>

theorem webhook_callback_idempotent:
  "(stored w jobId = Some job \<and> status job \<in> {COMPLETED, FAILED} \<longrightarrow>
      handleWebhookCallback u1 u2 now w jobId res err = (Inr (Some job), w))
   \<and> (stored w jobId = Some job \<and> status job = PENDING \<longrightarrow>
      (\<exists>job'. stored (snd (handleWebhookCallback u1 u2 now w jobId res err)) jobId = Some job'
         \<and> status job' \<in> {COMPLETED, FAILED}))
   \<and> (let w1 = snd (handleWebhookCallback u1 u2 now w jobId res err)
      in handleWebhookCallback u3 u4 now' w1 jobId res' err' = (findById w1 jobId, w1)
         \<and> (stored w jobId \<noteq> None \<longrightarrow> findById w1 jobId = Inr (stored w1 jobId)
               \<and> stored w1 jobId \<noteq> None))"
proof (intro conjI impI)
  assume "stored w jobId = Some job \<and> status job \<in> {COMPLETED, FAILED}"
  then show "handleWebhookCallback u1 u2 now w jobId res err = (Inr (Some job), w)"
    by (auto intro: handleWebhookCallback_skip)
next
  assume "stored w jobId = Some job \<and> status job = PENDING"
  then show "\<exists>job'. stored (snd (handleWebhookCallback u1 u2 now w jobId res err)) jobId = Some job'
         \<and> status job' \<in> {COMPLETED, FAILED}"
    using handleWebhookCallback_finalizes [of w jobId job u1 u2 now res err] by blast
next
  define w1 where "w1 = snd (handleWebhookCallback u1 u2 now w jobId res err)"
  have a: "handleWebhookCallback u3 u4 now' w1 jobId res' err' = (findById w1 jobId, w1)"
    and b: "stored w jobId \<noteq> None \<longrightarrow> findById w1 jobId = Inr (stored w1 jobId)
               \<and> stored w1 jobId \<noteq> None"
  proof -
    show "handleWebhookCallback u3 u4 now' w1 jobId res' err' = (findById w1 jobId, w1)"
    proof (cases "stored w jobId")
      case None
      then have "w1 = w"
        by (simp add: w1_def handleWebhookCallback_absent)
      with None show ?thesis
        by (simp add: handleWebhookCallback_absent)
    next
      case (Some j)
      show ?thesis
      proof (cases "status j = PENDING")
        case True
        from handleWebhookCallback_finalizes [OF Some True, of u1 u2 now res err]
        obtain j' where "stored w1 jobId = Some j'" and "status j' \<noteq> PENDING"
          by (auto simp: w1_def)
        then show ?thesis
          by (simp add: handleWebhookCallback_skip findById_stored)
      next
        case False
        with Some have "w1 = w"
          by (simp add: w1_def handleWebhookCallback_skip)
        with Some False show ?thesis
          by (simp add: handleWebhookCallback_skip findById_stored)
      qed
    qed
  next
    show "stored w jobId \<noteq> None \<longrightarrow> findById w1 jobId = Inr (stored w1 jobId)
               \<and> stored w1 jobId \<noteq> None"
    proof
      assume "stored w jobId \<noteq> None"
      then obtain j where j: "stored w jobId = Some j" by auto
      have "\<exists>j'. stored w1 jobId = Some j'"
      proof (cases "status j = PENDING")
        case True
        from handleWebhookCallback_finalizes [OF j True, of u1 u2 now res err]
        show ?thesis by (auto simp: w1_def)
      next
        case False
        with j have "w1 = w"
          by (simp add: w1_def handleWebhookCallback_skip)
        with j show ?thesis by simp
      qed
      then show "findById w1 jobId = Inr (stored w1 jobId) \<and> stored w1 jobId \<noteq> None"
        by (auto simp: findById_stored)
    qed
  qed
  from a b show "let w1 = snd (handleWebhookCallback u1 u2 now w jobId res err)
      in handleWebhookCallback u3 u4 now' w1 jobId res' err' = (findById w1 jobId, w1)
         \<and> (stored w jobId \<noteq> None \<longrightarrow> findById w1 jobId = Inr (stored w1 jobId)
               \<and> stored w1 jobId \<noteq> None)"
    by (simp add: w1_def)
qed

lemma trim_scenario: "trim (js ''Summarize X'') = js ''Summarize X''"
  by (simp add: trim_def js_def is_white_space_def)

lemma cast_job_A: "castObjectId job_A = Inr job_A"
  by (simp add: castObjectId_def job_A_def js_def is_hex_digit_def lower_hex_def)

lemma job_A_nonempty: "job_A \<noteq> []"
  by (simp add: job_A_def js_def)

lemma stored_job_A: "stored w job_A = docs w job_A"
  by (simp add: stored_def cast_job_A)

lemma pending_world_docs: "docs pending_world job_A = Some scenario_job"
  by (simp add: pending_world_def run_def createJob_def create_def Let_def init_world_def
      enqueue_def scenario_job_def trim_scenario) (simp add: js_def)

lemma completed_world_docs: "docs completed_world job_A = Some completed_job"
  by (simp add: completed_world_def handleWebhookCallback_def findById_def pending_world_docs
      updateStatus_def Let_def truthy_def or_null_def completed_job_def cast_job_A)
     (simp add: scenario_job_def js_def)

theorem webhook_callback_idempotent_witness:
  "handleWebhookCallback random_zero random_zero 3 completed_world job_A None
       (Some (js ''timeout''))
     = (Inr (Some completed_job), completed_world)
   \<and> (\<exists>job'. stored (snd (handleWebhookCallback random_zero random_zero 2 pending_world job_A
          (Some (js ''summary text'')) None)) job_A = Some job'
        \<and> status job' \<in> {COMPLETED, FAILED})"
  using webhook_callback_idempotent
      [of completed_world job_A completed_job random_zero random_zero 3 None
        "Some (js ''timeout'')"]
    webhook_callback_idempotent
      [of pending_world job_A scenario_job random_zero random_zero 2
        "Some (js ''summary text'')" None]
  by (simp add: stored_job_A completed_world_docs pending_world_docs completed_job_def
      scenario_job_def)

section \<open>Validation of the callback body\<close>

lemma z_string_ok: "z_string path v = [] \<longleftrightarrow> (\<exists>s. v = JString s)"
  by (cases v) (simp_all add: z_string_def)

lemma z_string_optional_ok: "z_string_optional path v = [] \<longleftrightarrow> v = of_optional (as_string v)"
  by (cases v) (simp_all add: z_string_optional_def of_optional_def as_string_def)

lemma as_string_of_optional: "as_string (of_optional x) = x"
  by (cases x) (simp_all add: of_optional_def as_string_def)

lemma webhookCallbackSchema_object:
  "webhookCallbackSchema (JObject ps) = Inr data \<longleftrightarrow>
     get_prop (JObject ps) (js ''jobId'') = JString (cb_jobId data) \<and> cb_jobId data \<noteq> []
     \<and> get_prop (JObject ps) (js ''result'') = of_optional (cb_result data)
     \<and> get_prop (JObject ps) (js ''error'') = of_optional (cb_error data)
     \<and> (cb_result data \<noteq> None \<or> cb_error data \<noteq> None)"
proof -
  let ?j = "get_prop (JObject ps) (js ''jobId'')"
  let ?r = "get_prop (JObject ps) (js ''result'')"
  let ?e = "get_prop (JObject ps) (js ''error'')"
  show ?thesis
  proof (cases "z_string [''jobId''] ?j = [] \<and> z_string_optional [''result''] ?r = []
               \<and> z_string_optional [''error''] ?e = []")
    case True
    then obtain s where s: "?j = JString s" and r: "?r = of_optional (as_string ?r)"
      and e: "?e = of_optional (as_string ?e)"
      by (auto simp: z_string_ok z_string_optional_ok)
    have "webhookCallbackSchema (JObject ps) =
        (if s \<noteq> [] \<and> (as_string ?r \<noteq> None \<or> as_string ?e \<noteq> None)
         then Inr \<lparr>cb_jobId = s, cb_result = as_string ?r, cb_error = as_string ?e\<rparr>
         else Inl ((if s = [] then [too_small [''jobId''] ''Job ID is required''] else [])
                @ (if as_string ?r \<noteq> None \<or> as_string ?e \<noteq> None then []
                        else [custom ''Either result or error must be provided''])))"
      using True s by (auto simp add: webhookCallbackSchema_def Let_def)
    then show ?thesis
      using s r e by (cases data) (auto simp: as_string_of_optional)
  next
    case False
    then have "\<exists>issues. webhookCallbackSchema (JObject ps) = Inl issues"
      by (auto simp add: webhookCallbackSchema_def Let_def)
    moreover from False
    have "\<not> (?j = JString (cb_jobId data) \<and> ?r = of_optional (cb_result data)
       \<and> ?e = of_optional (cb_error data))"
      by (auto simp: z_string_ok z_string_optional_ok as_string_of_optional)
    ultimately show ?thesis by auto
  qed
qed

text \<open>
  C2, as the schema decides it. A callback body is accepted exactly when it is an object
  whose \<open>jobId\<close> is a non-empty string, whose \<open>result\<close> and \<open>error\<close> are each absent
  or a string, and in which at least one of \<open>result\<close> and \<open>error\<close> is present. So a
  body with neither is rejected, and a body with both is accepted.
\<close>

theorem webhookCallbackSchema_accepts:
  "webhookCallbackSchema body = Inr data \<longleftrightarrow>
     (\<exists>ps. body = JObject ps)
     \<and> get_prop body (js ''jobId'') = JString (cb_jobId data) \<and> cb_jobId data \<noteq> []
     \<and> get_prop body (js ''result'') = of_optional (cb_result data)
     \<and> get_prop body (js ''error'') = of_optional (cb_error data)
     \<and> (cb_result data \<noteq> None \<or> cb_error data \<noteq> None)"
proof (cases body)
  case (JObject ps)
  then show ?thesis using webhookCallbackSchema_object [of ps data] by simp
qed (simp_all add: webhookCallbackSchema_def)

theorem webhookCallbackSchema_accepts_witness:
  "webhookCallbackSchema both_body =
     Inr \<lparr>cb_jobId = job_A, cb_result = Some (js ''ok''), cb_error = Some (js ''boom'')\<rparr>
   \<and> webhookCallbackSchema neither_body \<noteq>
     Inr \<lparr>cb_jobId = job_A, cb_result = None, cb_error = None\<rparr>"
  using webhookCallbackSchema_accepts [of both_body
      "\<lparr>cb_jobId = job_A, cb_result = Some (js ''ok''), cb_error = Some (js ''boom'')\<rparr>"]
    webhookCallbackSchema_accepts [of neither_body
      "\<lparr>cb_jobId = job_A, cb_result = None, cb_error = None\<rparr>"]
  by (simp add: both_body_def neither_body_def get_prop_def of_optional_def js_def
      job_A_nonempty)

text \<open>
  The body \<open>{jobId: "A", result: "ok", error: "boom"}\<close> carries both fields and passes
  the schema.
\<close>

theorem both_result_and_error_accepted:
  "webhookCallbackSchema both_body =
     Inr \<lparr>cb_jobId = job_A, cb_result = Some (js ''ok''), cb_error = Some (js ''boom'')\<rparr>"
  by (simp add: webhookCallbackSchema_def both_body_def get_prop_def z_string_def
      z_string_optional_def as_string_def Let_def js_def job_A_nonempty)

section \<open>Applying a report to a pending job\<close>

lemma handleWebhookCallback_pending:
  assumes "castObjectId jobId = Inr k" and "docs w k = Some job" and "status job = PENDING"
  shows "handleWebhookCallback u1 u2 now w jobId res err =
    (Inr (Some (finalized u1 u2 now job res err)),
     w\<lparr>docs := (docs w)(k \<mapsto> finalized u1 u2 now job res err),
       journal := journal w @ [DbUpdate k]\<rparr>)"
  using assms
  by (simp add: handleWebhookCallback_def findById_def updateStatus_def Let_def finalized_def)

lemma cast_nonempty:
  assumes "castObjectId i = Inr k"
  shows "i \<noteq> []"
  using assms by (auto simp: castObjectId_def split: if_splits)

text \<open>
  What a report does to a pending job: the update is persisted, the status is \<open>FAILED\<close>
  exactly when \<open>error\<close> is a non-empty string and \<open>COMPLETED\<close> otherwise, and a
  non-empty \<open>result\<close> or \<open>error\<close> is attached as given.
\<close>

lemma handleWebhookCallback_outcome:
  assumes "stored w jobId = Some job" and "status job = PENDING"
  shows "\<exists>job' w'. handleWebhookCallback u1 u2 now w jobId res err = (Inr (Some job'), w')
     \<and> stored w' jobId = Some job'
     \<and> (\<exists>k. castObjectId jobId = Inr k \<and> journal w' = journal w @ [DbUpdate k])
     \<and> (status job' = FAILED \<longleftrightarrow> truthy err)
     \<and> (status job' = COMPLETED \<longleftrightarrow> \<not> truthy err)
     \<and> (truthy res \<longrightarrow> result job' = res)
     \<and> (truthy err \<longrightarrow> error job' = err)"
proof -
  from assms(1) obtain k where k: "castObjectId jobId = Inr k" and d: "docs w k = Some job"
    by (rule stored_cast)
  show ?thesis
    using handleWebhookCallback_pending [OF k d assms(2), of u1 u2 now res err] k
    by (simp add: finalized_def or_null_def stored_def)
qed

lemma scenario_job_pending: "status scenario_job = PENDING"
  by (simp add: scenario_job_def)

text \<open>
  C9. A report whose \<open>error\<close> is the empty string, with no \<open>result\<close>, passes the
  schema (the field is present), and on a \<open>PENDING\<close> job the handler stores
  \<open>COMPLETED\<close> with \<open>result\<close> and \<open>error\<close> both \<open>null\<close>: the status is chosen by the
  truthiness of \<open>error\<close>, and \<open>"" || null\<close> is \<open>null\<close>.
\<close>

theorem empty_error_treated_as_success:
  assumes "stored w jobId = Some job" and "status job = PENDING"
  shows "webhookCallbackSchema (empty_error_body jobId) =
           Inr \<lparr>cb_jobId = jobId, cb_result = None, cb_error = Some []\<rparr>
     \<and> (\<exists>job' w'. handleWebhookCallback u1 u2 now w jobId None (Some [])
             = (Inr (Some job'), w')
           \<and> stored w' jobId = Some job'
           \<and> status job' = COMPLETED \<and> result job' = None \<and> error job' = None)"
proof
  from assms(1) obtain k where k: "castObjectId jobId = Inr k" and d: "docs w k = Some job"
    by (rule stored_cast)
  have "js ''jobId'' \<noteq> js ''result''" and "js ''jobId'' \<noteq> js ''error''"
    and "js ''error'' \<noteq> js ''result''"
    by (simp_all add: js_def)
  then show "webhookCallbackSchema (empty_error_body jobId) =
           Inr \<lparr>cb_jobId = jobId, cb_result = None, cb_error = Some []\<rparr>"
    using cast_nonempty [OF k]
    by (simp add: webhookCallbackSchema_def empty_error_body_def get_prop_def z_string_def
        z_string_optional_def as_string_def Let_def)
  show "\<exists>job' w'. handleWebhookCallback u1 u2 now w jobId None (Some [])
             = (Inr (Some job'), w')
           \<and> stored w' jobId = Some job'
           \<and> status job' = COMPLETED \<and> result job' = None \<and> error job' = None"
    using handleWebhookCallback_pending [OF k d assms(2), of u1 u2 now None "Some []"] k
    by (simp add: finalized_def truthy_def or_null_def stored_def)
qed

theorem empty_error_treated_as_success_witness:
  "webhookCallbackSchema (empty_error_body job_A) =
           Inr \<lparr>cb_jobId = job_A, cb_result = None, cb_error = Some []\<rparr>
     \<and> (\<exists>job' w'. handleWebhookCallback random_zero random_zero 2 pending_world job_A None
               (Some [])
             = (Inr (Some job'), w')
           \<and> stored w' job_A = Some job'
           \<and> status job' = COMPLETED \<and> result job' = None \<and> error job' = None)"
  using empty_error_treated_as_success
      [of pending_world job_A scenario_job random_zero random_zero 2]
  by (simp add: stored_job_A pending_world_docs scenario_job_pending)

text \<open>
  C4, at the report \<open>{jobId: A, error: ""}\<close> for the pending job \<open>A\<close>: the report
  passes the schema and provides \<open>error\<close>; the controller answers with the status
  \<open>COMPLETED\<close>, and the stored \<open>error\<close> is \<open>null\<close>.
\<close>

theorem empty_error_report_completes:
  "webhookCallbackSchema (empty_error_body job_A) =
     Inr \<lparr>cb_jobId = job_A, cb_result = None, cb_error = Some []\<rparr>
   \<and> fst (JobController_webhookCallback False random_zero random_zero 2 pending_world
           \<lparr>cb_jobId = job_A, cb_result = None, cb_error = Some []\<rparr>)
     = Response 200 (CallbackPayload job_A COMPLETED 2)
   \<and> map_option error (docs (snd (JobController_webhookCallback False random_zero random_zero 2
           pending_world \<lparr>cb_jobId = job_A, cb_result = None, cb_error = Some []\<rparr>)) job_A)
     = Some None"
proof -
  have "js ''jobId'' \<noteq> js ''result''" and "js ''jobId'' \<noteq> js ''error''"
    and "js ''error'' \<noteq> js ''result''"
    by (simp_all add: js_def)
  then have "webhookCallbackSchema (empty_error_body job_A)
      = Inr \<lparr>cb_jobId = job_A, cb_result = None, cb_error = Some []\<rparr>"
    by (simp add: webhookCallbackSchema_def empty_error_body_def get_prop_def
        z_string_def z_string_optional_def as_string_def Let_def job_A_nonempty)
  then show ?thesis
    by (simp add: JobController_webhookCallback_def
        handleWebhookCallback_pending [OF cast_job_A pending_world_docs scenario_job_pending]
        finalized_def truthy_def or_null_def scenario_job_def)
qed

theorem empty_error_report_completes_witness:
  "fst (JobController_webhookCallback False random_zero random_zero 2 pending_world
           \<lparr>cb_jobId = job_A, cb_result = None, cb_error = Some []\<rparr>)
     \<noteq> Response 200 (CallbackPayload job_A FAILED 2)"
  using empty_error_report_completes by simp

section \<open>Anomaly simulation\<close>

lemma castObjectId_cases:
  "castObjectId i = (if length i = 24 \<and> list_all is_hex_digit i
     then Inr (map lower_hex i) else Inl CastError)"
  by (simp add: castObjectId_def)

text \<open>
  C5, as the code has it. On an existing job, whatever its status,
  \<open>simulateHallucination\<close> leaves the record \<open>COMPLETED\<close> with the malformed result and
  no error. On an id of 24 hexadecimal digits that names no job it returns \<open>null\<close>,
  which the controller answers with 404 \<open>Job not found\<close>. On an id that is not 24
  hexadecimal digits the update throws a \<open>CastError\<close>, which is answered with 400
  \<open>Invalid ID format\<close>. The result is malformed: it opens an object that it never
  closes.
\<close>

theorem simulateHallucination_forces_completed:
  "(stored w jobId = Some job \<longrightarrow>
      (\<exists>job' w'. simulateHallucination now w jobId = (Inr (Some job'), w')
         \<and> stored w' jobId = Some job'
         \<and> status job' = COMPLETED \<and> result job' = Some malformed_result \<and> error job' = None))
   \<and> (length jobId = 24 \<and> list_all is_hex_digit jobId \<and> stored w jobId = None \<longrightarrow>
        simulateHallucination now w jobId = (Inr None, w)
        \<and> JobController_simulateHallucination production now w jobId
            = (Response 404 (ErrorPayload ''Job not found''), w))
   \<and> (\<not> (length jobId = 24 \<and> list_all is_hex_digit jobId) \<longrightarrow>
        simulateHallucination now w jobId = (Inl CastError, w)
        \<and> JobController_simulateHallucination production now w jobId
            = (Response 400 (ErrorPayload ''Invalid ID format''), w))
   \<and> unterminated_object malformed_result"
proof (intro conjI impI)
  assume "stored w jobId = Some job"
  then obtain k where "castObjectId jobId = Inr k" and "docs w k = Some job"
    by (rule stored_cast)
  then show "\<exists>job' w'. simulateHallucination now w jobId = (Inr (Some job'), w')
         \<and> stored w' jobId = Some job'
         \<and> status job' = COMPLETED \<and> result job' = Some malformed_result \<and> error job' = None"
    by (simp add: simulateHallucination_def updateStatus_def Let_def stored_def)
next
  assume a: "length jobId = 24 \<and> list_all is_hex_digit jobId \<and> stored w jobId = None"
  then have c: "castObjectId jobId = Inr (map lower_hex jobId)"
    by (simp add: castObjectId_cases)
  with a have "docs w (map lower_hex jobId) = None"
    by (simp add: stored_def)
  with c have "castObjectId jobId = Inr (map lower_hex jobId)"
    and "docs w (map lower_hex jobId) = None"
    by simp_all
  then have s: "simulateHallucination now w jobId = (Inr None, w)"
    by (simp add: simulateHallucination_def updateStatus_def)
  then show "simulateHallucination now w jobId = (Inr None, w)" .
  from s show "JobController_simulateHallucination production now w jobId
            = (Response 404 (ErrorPayload ''Job not found''), w)"
    by (simp add: JobController_simulateHallucination_def errorHandler_def)
next
  assume "\<not> (length jobId = 24 \<and> list_all is_hex_digit jobId)"
  then have "castObjectId jobId = Inl CastError"
    by (simp add: castObjectId_cases)
  then have s: "simulateHallucination now w jobId = (Inl CastError, w)"
    by (simp add: simulateHallucination_def updateStatus_def)
  then show "simulateHallucination now w jobId = (Inl CastError, w)" .
  from s show "JobController_simulateHallucination production now w jobId
            = (Response 400 (ErrorPayload ''Invalid ID format''), w)"
    by (simp add: JobController_simulateHallucination_def errorHandler_def)
next
  show "unterminated_object malformed_result"
    by (simp add: unterminated_object_def malformed_result_def js_def)
qed

lemma job_A_digits: "length job_A = 24 \<and> list_all is_hex_digit job_A"
  by (simp add: job_A_def js_def is_hex_digit_def)

theorem simulateHallucination_forces_completed_witness:
  "(\<exists>job' w'. simulateHallucination 3 completed_world job_A = (Inr (Some job'), w')
         \<and> stored w' job_A = Some job'
         \<and> status job' = COMPLETED \<and> result job' = Some malformed_result \<and> error job' = None)
   \<and> JobController_simulateHallucination False 3 init_world job_A
        = (Response 404 (ErrorPayload ''Job not found''), init_world)
   \<and> JobController_simulateHallucination False 3 pending_world (js ''abc'')
        = (Response 400 (ErrorPayload ''Invalid ID format''), pending_world)"
proof -
  have "stored init_world job_A = None"
    by (simp add: stored_job_A init_world_def)
  moreover have "\<not> (length (js ''abc'') = 24 \<and> list_all is_hex_digit (js ''abc''))"
    by (simp add: js_def)
  ultimately show ?thesis
    using simulateHallucination_forces_completed [of completed_world job_A completed_job 3]
      simulateHallucination_forces_completed [of init_world job_A _ 3 False]
      simulateHallucination_forces_completed [of pending_world "js ''abc''" _ 3 False]
      job_A_digits
    by (simp add: stored_job_A completed_world_docs)
qed

text \<open>
  The id \<open>abc\<close> names no job; the anomaly simulation on it is answered with 400
  \<open>Invalid ID format\<close>, not with 404.
\<close>

theorem ill_formed_id_not_reported_missing:
  "stored pending_world (js ''abc'') = None
   \<and> simulateHallucination 3 pending_world (js ''abc'') = (Inl CastError, pending_world)
   \<and> JobController_simulateHallucination False 3 pending_world (js ''abc'')
        = (Response 400 (ErrorPayload ''Invalid ID format''), pending_world)"
  by (simp add: stored_def JobController_simulateHallucination_def simulateHallucination_def
      updateStatus_def castObjectId_def errorHandler_def js_def)

section \<open>Job creation\<close>

lemma length_trim: "length (trim s) \<le> length s"
proof -
  have "length (trim s) \<le> length (dropWhile is_white_space s)"
    unfolding trim_def using length_dropWhile_le [of is_white_space "rev (dropWhile is_white_space s)"]
    by simp
  also have "\<dots> \<le> length s" by (rule length_dropWhile_le)
  finally show ?thesis .
qed

text \<open>
  C6, as the code has it. For a prompt of 1 to 10000 characters that is not white space
  only, and a fresh id, \<open>createJob\<close> persists a record that holds the trimmed prompt,
  with status \<open>PENDING\<close> and \<open>result\<close> and \<open>error\<close> both \<open>null\<close>, returns it, and
  after the insert starts the execution task for its id.
\<close>

theorem createJob_pending_then_enqueued:
  assumes "1 \<le> length p" and "length p \<le> 10000" and "trim p \<noteq> []" and "docs w new_id = None"
  shows "\<exists>job w'. createJob new_id now w p = (Inr job, w')
     \<and> job = \<lparr>job_id = new_id, prompt = trim p, status = PENDING, result = None, error = None,
              createdAt = now, updatedAt = now, metadata = empty_metadata\<rparr>
     \<and> docs w' new_id = Some job
     \<and> journal w' = journal w @ [DbInsert new_id, TaskStarted new_id]
     \<and> tasks w' = tasks w @ [new_id]
     \<and> new_id \<in> pendingJobs w'"
proof -
  have "length (trim p) \<le> 10000"
    using length_trim [of p] assms(2) by simp
  then show ?thesis
    using assms(3,4) by (simp add: createJob_def create_def Let_def enqueue_def)
qed

theorem createJob_pending_then_enqueued_witness:
  "\<exists>job w'. createJob job_A 1 init_world (js ''Summarize X'') = (Inr job, w')
     \<and> job = scenario_job
     \<and> docs w' job_A = Some job
     \<and> journal w' = [DbInsert job_A, TaskStarted job_A]
     \<and> tasks w' = [job_A]
     \<and> job_A \<in> pendingJobs w'"
  using createJob_pending_then_enqueued [of "js ''Summarize X''" init_world "job_A" 1]
  by (simp add: trim_scenario scenario_job_def) (simp add: init_world_def js_def)

text \<open>
  The prompt \<open>" "\<close> has one character and passes the request schema; the model trims it
  to the empty string, the \<open>required\<close> validator fails on save, and nothing is
  persisted or enqueued.
\<close>

theorem blank_prompt_not_persisted:
  "length blank_prompt = 1
   \<and> createJobSchema (JObject [(js ''prompt'', JString blank_prompt)]) = Inr blank_prompt
   \<and> createJob job_A 1 init_world blank_prompt
        = (Inl (ValidationError ''Prompt is required''), init_world)"
  by (simp add: createJob_def create_def Let_def trim_def blank_prompt_def createJobSchema_def get_prop_def js_def is_white_space_def)

section \<open>Shutdown of the queue\<close>

lemma pending_world_tasks: "tasks pending_world = [job_A]"
  by (simp add: pending_world_def run_def createJob_def create_def Let_def init_world_def
      enqueue_def trim_scenario) (simp add: js_def)

text \<open>
  C8, as the code has it. \<open>shutdown\<close> empties the bookkeeping set and touches nothing
  else: the running tasks go on and settle as they would have, and a second \<open>shutdown\<close>
  changes nothing. The queue keeps no record of having been shut down: an \<open>enqueue\<close>
  after \<open>shutdown\<close> starts an execution task as before.
\<close>

theorem shutdown_clears_bookkeeping_only:
  "pendingJobs (shutdown w) = {} \<and> tasks (shutdown w) = tasks w
   \<and> docs (shutdown w) = docs w \<and> journal (shutdown w) = journal w
   \<and> shutdown (shutdown w) = shutdown w
   \<and> tasks (enqueue (shutdown w) jobId) = tasks w @ [jobId]
   \<and> pendingJobs (enqueue (shutdown w) jobId) = {jobId}
   \<and> journal (enqueue (shutdown w) jobId) = journal w @ [TaskStarted jobId]
   \<and> tasks (settle (shutdown w) jobId) = remove1 jobId (tasks w)
   \<and> pendingJobs (settle (shutdown w) jobId) = {}"
  by (simp add: shutdown_def enqueue_def settle_def)

text \<open>
  After \<open>shutdown\<close>, with the task for \<open>A\<close> still running, \<open>enqueue("B")\<close> starts a task
  for \<open>B\<close>.
\<close>

theorem enqueue_after_shutdown_starts_task:
  "tasks (enqueue (shutdown pending_world) (js ''B'')) = [job_A, js ''B'']"
  by (simp add: shutdown_def enqueue_def pending_world_tasks)

section \<open>The execution task\<close>

lemma processJob_settles: "snd (snd (processJob cfg env jobId)) = Resolves ()"
  by (simp add: processJob_def processJob_try_def Let_def
      split: outcome.splits option.splits prod.splits)

text \<open>
  C7, as the code has it. The promise of the execution task always resolves. When
  something inside \<open>try\<close> throws, the task builds the failure report \<open>{jobId, error}\<close>
  and sends it to the same callback URL, and whether that second \<open>fetch\<close> resolves or
  rejects, the task resolves. That is the case when the prompt lookup rejects or returns
  nothing (\<open>null\<close> or the empty string), when the processor rejects, when \<open>fetch\<close>
  rejects while delivering the success report, and when, after an ok response, the log
  line reads the metadata of a result that has none. When the callback endpoint answers
  the success report with a status that is not ok, the task logs the failed callback and
  the success report stays the only request; so it does after an ok response to a result
  with metadata.
\<close>

theorem processJob_reports_failure_and_never_throws:
  "snd (snd (processJob cfg env jobId)) = Resolves ()
   \<and> (promptFetcher env jobId = Rejects e \<longrightarrow>
        fst (processJob cfg env jobId) = [post cfg (failure_report jobId e)])
   \<and> (promptFetcher env jobId = Resolves po \<and> \<not> truthy po \<longrightarrow>
        fst (processJob cfg env jobId) = [post cfg (failure_report jobId (not_found_error jobId))])
   \<and> (promptFetcher env jobId = Resolves (Some p) \<and> p \<noteq> [] \<and> process env jobId p = Rejects e \<longrightarrow>
        fst (processJob cfg env jobId) = [post cfg (failure_report jobId e)])
   \<and> (promptFetcher env jobId = Resolves (Some p) \<and> p \<noteq> [] \<and> process env jobId p = Resolves r
        \<and> fetch env (post cfg (success_report jobId r)) = Rejects e \<longrightarrow>
        fst (processJob cfg env jobId)
          = [post cfg (success_report jobId r), post cfg (failure_report jobId e)])
   \<and> (promptFetcher env jobId = Resolves (Some p) \<and> p \<noteq> [] \<and> process env jobId p = Resolves r
        \<and> fetch env (post cfg (success_report jobId r)) = Resolves st
        \<and> response_ok st \<and> nullish (ai_metadata r) \<longrightarrow>
        fst (processJob cfg env jobId)
          = [post cfg (success_report jobId r),
             post cfg (failure_report jobId (metadata_type_error (ai_metadata r)))])
   \<and> (promptFetcher env jobId = Resolves (Some p) \<and> p \<noteq> [] \<and> process env jobId p = Resolves r
        \<and> fetch env (post cfg (success_report jobId r)) = Resolves st
        \<and> \<not> response_ok st \<longrightarrow>
        fst (processJob cfg env jobId) = [post cfg (success_report jobId r)]
        \<and> fst (snd (processJob cfg env jobId)) = [WebhookCallbackFailed st])
   \<and> (promptFetcher env jobId = Resolves (Some p) \<and> p \<noteq> [] \<and> process env jobId p = Resolves r
        \<and> fetch env (post cfg (success_report jobId r)) = Resolves st
        \<and> response_ok st \<and> \<not> nullish (ai_metadata r) \<longrightarrow>
        fst (processJob cfg env jobId) = [post cfg (success_report jobId r)]
        \<and> fst (snd (processJob cfg env jobId)) = [JobCompleted])
   \<and> request_url (post cfg (failure_report jobId e)) = webhookCallbackUrl cfg
   \<and> failure_report jobId e
        = JObject [(js ''jobId'', JString jobId), (js ''error'', JString (error_message e))]"
proof (intro conjI impI)
  show "snd (snd (processJob cfg env jobId)) = Resolves ()"
    by (rule processJob_settles)
next
  assume "promptFetcher env jobId = Rejects e"
  then show "fst (processJob cfg env jobId) = [post cfg (failure_report jobId e)]"
    by (simp add: processJob_def processJob_try_def Let_def split: outcome.splits)
next
  assume "promptFetcher env jobId = Resolves po \<and> \<not> truthy po"
  then show "fst (processJob cfg env jobId)
      = [post cfg (failure_report jobId (not_found_error jobId))]"
    by (cases po)
      (simp_all add: processJob_def processJob_try_def Let_def truthy_def
        split: outcome.splits)
next
  assume "promptFetcher env jobId = Resolves (Some p) \<and> p \<noteq> [] \<and> process env jobId p = Rejects e"
  then show "fst (processJob cfg env jobId) = [post cfg (failure_report jobId e)]"
    by (simp add: processJob_def processJob_try_def Let_def split: outcome.splits)
next
  assume "promptFetcher env jobId = Resolves (Some p) \<and> p \<noteq> [] \<and> process env jobId p = Resolves r
        \<and> fetch env (post cfg (success_report jobId r)) = Rejects e"
  then show "fst (processJob cfg env jobId)
          = [post cfg (success_report jobId r), post cfg (failure_report jobId e)]"
    by (simp add: processJob_def processJob_try_def Let_def split: outcome.splits)
next
  assume "promptFetcher env jobId = Resolves (Some p) \<and> p \<noteq> [] \<and> process env jobId p = Resolves r
        \<and> fetch env (post cfg (success_report jobId r)) = Resolves st
        \<and> response_ok st \<and> nullish (ai_metadata r)"
  then show "fst (processJob cfg env jobId)
          = [post cfg (success_report jobId r),
             post cfg (failure_report jobId (metadata_type_error (ai_metadata r)))]"
    by (simp add: processJob_def processJob_try_def Let_def split: outcome.splits)
next
  assume a: "promptFetcher env jobId = Resolves (Some p) \<and> p \<noteq> [] \<and> process env jobId p = Resolves r
        \<and> fetch env (post cfg (success_report jobId r)) = Resolves st
        \<and> \<not> response_ok st"
  then show "fst (processJob cfg env jobId) = [post cfg (success_report jobId r)]"
    by (simp add: processJob_def processJob_try_def Let_def)
  from a show "fst (snd (processJob cfg env jobId)) = [WebhookCallbackFailed st]"
    by (simp add: processJob_def processJob_try_def Let_def)
next
  assume a: "promptFetcher env jobId = Resolves (Some p) \<and> p \<noteq> [] \<and> process env jobId p = Resolves r
        \<and> fetch env (post cfg (success_report jobId r)) = Resolves st
        \<and> response_ok st \<and> \<not> nullish (ai_metadata r)"
  then show "fst (processJob cfg env jobId) = [post cfg (success_report jobId r)]"
    by (simp add: processJob_def processJob_try_def Let_def)
  from a show "fst (snd (processJob cfg env jobId)) = [JobCompleted]"
    by (simp add: processJob_def processJob_try_def Let_def)
next
  show "request_url (post cfg (failure_report jobId e)) = webhookCallbackUrl cfg"
    by (simp add: post_def)
next
  show "failure_report jobId e
        = JObject [(js ''jobId'', JString jobId), (js ''error'', JString (error_message e))]"
    by (simp add: failure_report_def)
qed

theorem processJob_reports_failure_and_never_throws_witness:
  "processJob example_config failing_backend job_A
     = ([post example_config (failure_report job_A (ErrorObject (js ''backend down'')))],
        [ErrorProcessingJob (ErrorObject (js ''backend down'')),
         FailedToReportError (ErrorObject (js ''fetch failed''))],
        Resolves ())
   \<and> fst (processJob example_config metadata_less_backend job_A)
     = [post example_config
          (JObject [(js ''jobId'', JString job_A), (js ''result'', JString (js ''summary text''))]),
        post example_config (failure_report job_A (metadata_type_error JUndefined))]"
proof -
  let ?r = "\<lparr>ai_result = js ''summary text'', ai_metadata = JUndefined\<rparr>"
  have p: "js ''Summarize X'' \<noteq> []"
    by (simp add: js_def)
  have "processJob example_config failing_backend job_A
     = ([post example_config (failure_report job_A (ErrorObject (js ''backend down'')))],
        [ErrorProcessingJob (ErrorObject (js ''backend down'')),
         FailedToReportError (ErrorObject (js ''fetch failed''))],
        Resolves ())"
    using processJob_reports_failure_and_never_throws
      [of example_config failing_backend job_A "ErrorObject (js ''backend down'')" _
        "js ''Summarize X''"] p
    by (simp add: failing_backend_def processJob_def processJob_try_def Let_def)
  moreover have "fst (processJob example_config metadata_less_backend job_A)
     = [post example_config (success_report job_A ?r),
        post example_config (failure_report job_A (metadata_type_error (ai_metadata ?r)))]"
    using processJob_reports_failure_and_never_throws
      [of example_config metadata_less_backend job_A _ _ "js ''Summarize X''" ?r 200] p
    by (simp add: metadata_less_backend_def response_ok_def nullish_def)
  ultimately show ?thesis
    by (simp add: success_report_def)
qed

text \<open>
  The callback endpoint answers the success report with status 500: the delivery has
  failed, the task logs it, and no failure report is built.
\<close>

theorem rejected_success_report_not_followed_up:
  "\<not> response_ok 500
   \<and> processJob example_config rejecting_endpoint job_A
       = ([post example_config (success_report job_A example_ai_result)],
          [WebhookCallbackFailed 500], Resolves ())"
  by (simp add: response_ok_def rejecting_endpoint_def processJob_def processJob_try_def
      Let_def)
    (simp add: js_def)

section \<open>The invariant of job records\<close>

lemma ran_upd_invariant:
  assumes "\<forall>x\<in>ran m. P x" and "P v"
  shows "\<forall>x\<in>ran (m(k \<mapsto> v)). P x"
  using assms by (auto simp: ran_def split: if_splits)

lemma ran_delete_invariant:
  assumes "\<forall>x\<in>ran m. P x"
  shows "\<forall>x\<in>ran (m(k := None)). P x"
  using assms by (auto simp: ran_def split: if_splits)

lemma create_Inr:
  assumes "create new_id now w p = Inr (job, w1)"
  shows "docs w1 = (docs w)(new_id \<mapsto> job) \<and> status job = PENDING \<and> result job = None
    \<and> error job = None"
  using assms by (auto simp: create_def Let_def split: if_splits)

lemma createJob_preserves:
  assumes "\<forall>x\<in>ran (docs w). P x"
    and "\<And>job. status job = PENDING \<Longrightarrow> result job = None \<Longrightarrow> error job = None \<Longrightarrow> P job"
  shows "\<forall>x\<in>ran (docs (snd (createJob new_id now w p))). P x"
proof (cases "create new_id now w p")
  case (Inl e)
  then show ?thesis using assms(1) by (simp add: createJob_def)
next
  case (Inr r)
  obtain job w1 where r: "r = (job, w1)" by (cases r)
  from create_Inr [OF Inr [unfolded r]]
  have d: "docs w1 = (docs w)(new_id \<mapsto> job)" and "P job"
    by (auto intro: assms(2))
  then have "\<forall>x\<in>ran (docs w1). P x"
    using ran_upd_invariant [OF assms(1), of job new_id] by simp
  then show ?thesis
    using Inr r by (simp add: createJob_def enqueue_def)
qed

lemma handleWebhookCallback_preserves:
  assumes "\<forall>x\<in>ran (docs w). P x"
    and "\<And>job. P (finalized u1 u2 now job res err)"
  shows "\<forall>x\<in>ran (docs (snd (handleWebhookCallback u1 u2 now w jobId res err))). P x"
proof (cases "stored w jobId")
  case None
  then show ?thesis using assms(1) by (simp add: handleWebhookCallback_absent)
next
  case (Some job)
  then obtain k where k: "castObjectId jobId = Inr k" and d: "docs w k = Some job"
    by (rule stored_cast)
  show ?thesis
  proof (cases "status job = PENDING")
    case True
    then show ?thesis
      using ran_upd_invariant [OF assms, of k job]
      by (simp add: handleWebhookCallback_pending [OF k d])
  next
    case False
    with Some show ?thesis using assms(1) by (simp add: handleWebhookCallback_skip)
  qed
qed

lemma simulateHallucination_preserves:
  assumes "\<forall>x\<in>ran (docs w). P x"
    and "\<And>job. status job = COMPLETED \<Longrightarrow> result job = Some malformed_result \<Longrightarrow>
           error job = None \<Longrightarrow> P job"
  shows "\<forall>x\<in>ran (docs (snd (simulateHallucination now w jobId))). P x"
proof (cases "stored w jobId")
  case None
  then show ?thesis
    using assms(1)
    by (auto simp: simulateHallucination_def updateStatus_def stored_def split: sum.splits)
next
  case (Some job)
  then obtain k where k: "castObjectId jobId = Inr k" and d: "docs w k = Some job"
    by (rule stored_cast)
  let ?job' = "job\<lparr>status := COMPLETED, result := Some malformed_result, error := None,
     updatedAt := now\<rparr>"
  have "P ?job'" by (rule assms(2)) simp_all
  then have "\<forall>x\<in>ran ((docs w)(k \<mapsto> ?job')). P x"
    using assms(1) by (rule ran_upd_invariant [rotated])
  then show ?thesis
    using k d by (simp add: simulateHallucination_def updateStatus_def Let_def)
qed

lemma deleteJob_docs:
  "docs (snd (deleteJob w i)) = docs w
   \<or> (\<exists>k. docs (snd (deleteJob w i)) = (docs w)(k := None))"
  by (auto simp add: deleteJob_def delete_def split: option.splits sum.splits)

lemma deleteJob_preserves:
  assumes "\<forall>x\<in>ran (docs w). P x"
  shows "\<forall>x\<in>ran (docs (snd (deleteJob w i))). P x"
proof -
  from deleteJob_docs [of w i] show ?thesis
  proof
    assume "docs (snd (deleteJob w i)) = docs w"
    with assms show ?thesis by simp
  next
    assume "\<exists>k. docs (snd (deleteJob w i)) = (docs w)(k := None)"
    then obtain k where "docs (snd (deleteJob w i)) = (docs w)(k := None)" ..
    with ran_delete_invariant [OF assms, of k] show ?thesis by simp
  qed
qed

lemma finalized_pending_invariant: "pending_invariant (finalized u1 u2 now job res err)"
  by (simp add: pending_invariant_def finalized_def)

lemma finalized_job_invariant:
  assumes "truthy res \<noteq> truthy err"
  shows "job_invariant (finalized u1 u2 now job res err)"
  using assms
  by (auto simp: job_invariant_def finalized_def or_null_def truthy_def split: option.splits)

lemma step_pending_invariant:
  assumes "\<forall>job\<in>ran (docs w). pending_invariant job"
  shows "\<forall>job\<in>ran (docs (step w ev)). pending_invariant job"
proof (cases ev)
  case (CreateJob new_id now p)
  then show ?thesis
    using createJob_preserves [OF assms, of new_id now p] by (simp add: pending_invariant_def)
next
  case (HandleWebhookCallback u1 u2 now jobId res err)
  then show ?thesis
    using handleWebhookCallback_preserves [OF assms, of u1 u2 now res err jobId]
    by (simp add: finalized_pending_invariant)
next
  case (SimulateHallucination now jobId)
  then show ?thesis
    using simulateHallucination_preserves [OF assms, of now jobId]
    by (simp add: pending_invariant_def)
next
  case (DeleteJob jobId)
  then show ?thesis
    using deleteJob_preserves [OF assms, of jobId] by simp
qed

lemma step_job_invariant:
  assumes "\<forall>job\<in>ran (docs w). job_invariant job" and "one_outcome ev"
  shows "\<forall>job\<in>ran (docs (step w ev)). job_invariant job"
proof (cases ev)
  case (CreateJob new_id now p)
  then show ?thesis
    using createJob_preserves [OF assms(1), of new_id now p] by (simp add: job_invariant_def)
next
  case (HandleWebhookCallback u1 u2 now jobId res err)
  with assms(2) have "truthy res \<noteq> truthy err" by simp
  then show ?thesis
    using handleWebhookCallback_preserves [OF assms(1), of u1 u2 now res err jobId]
      HandleWebhookCallback
    by (simp add: finalized_job_invariant)
next
  case (SimulateHallucination now jobId)
  then show ?thesis
    using simulateHallucination_preserves [OF assms(1), of now jobId]
    by (simp add: job_invariant_def)
next
  case (DeleteJob jobId)
  then show ?thesis
    using deleteJob_preserves [OF assms(1), of jobId] by simp
qed

lemma foldl_pending_invariant:
  assumes "\<forall>job\<in>ran (docs w). pending_invariant job"
  shows "\<forall>job\<in>ran (docs (foldl step w evs)). pending_invariant job"
  using assms
proof (induction evs arbitrary: w)
  case Nil
  then show ?case by simp
next
  case (Cons ev evs)
  from Cons.prems have "\<forall>job\<in>ran (docs (step w ev)). pending_invariant job"
    by (rule step_pending_invariant)
  then show ?case using Cons.IH by simp
qed

lemma foldl_job_invariant:
  assumes "\<forall>job\<in>ran (docs w). job_invariant job" and "\<forall>ev\<in>set evs. one_outcome ev"
  shows "\<forall>job\<in>ran (docs (foldl step w evs)). job_invariant job"
  using assms
proof (induction evs arbitrary: w)
  case Nil
  then show ?case by simp
next
  case (Cons ev evs)
  from Cons.prems have "\<forall>job\<in>ran (docs (step w ev)). job_invariant job"
    using step_job_invariant [of w ev] by simp
  then show ?case using Cons.IH Cons.prems(2) by simp
qed

lemma run_scenario_history: "run scenario_history = completed_world"
  by (simp add: run_def scenario_history_def completed_world_def pending_world_def)

text \<open>
  C3, as the code has it. In every state the service can reach, a \<open>PENDING\<close> record has
  \<open>result\<close> and \<open>error\<close> both \<open>null\<close>. Creation, anomaly simulation and deletion
  preserve the full invariant (terminal records have exactly one of \<open>result\<close> and
  \<open>error\<close> set), and so does the webhook callback for a report in which exactly one of
  \<open>result\<close> and \<open>error\<close> is a non-empty string: it holds after every history of such
  operations, and each of them preserves it from any state.
\<close>

theorem job_invariant_of_histories:
  "(\<forall>job\<in>ran (docs (run evs)). status job = PENDING \<longrightarrow> result job = None \<and> error job = None)
   \<and> ((\<forall>ev\<in>set evs. one_outcome ev) \<longrightarrow> (\<forall>job\<in>ran (docs (run evs)). job_invariant job))
   \<and> ((\<forall>job\<in>ran (docs w). job_invariant job) \<and> one_outcome ev \<longrightarrow>
        (\<forall>job\<in>ran (docs (step w ev)). job_invariant job))"
proof (intro conjI impI)
  have "\<forall>job\<in>ran (docs init_world). pending_invariant job"
    by (simp add: init_world_def)
  then have "\<forall>job\<in>ran (docs (run evs)). pending_invariant job"
    unfolding run_def by (rule foldl_pending_invariant)
  then show "\<forall>job\<in>ran (docs (run evs)). status job = PENDING \<longrightarrow> result job = None \<and> error job = None"
    by (simp add: pending_invariant_def)
next
  assume "\<forall>ev\<in>set evs. one_outcome ev"
  moreover have "\<forall>job\<in>ran (docs init_world). job_invariant job"
    by (simp add: init_world_def)
  ultimately show "\<forall>job\<in>ran (docs (run evs)). job_invariant job"
    unfolding run_def by (intro foldl_job_invariant)
next
  assume "(\<forall>job\<in>ran (docs w). job_invariant job) \<and> one_outcome ev"
  then show "\<forall>job\<in>ran (docs (step w ev)). job_invariant job"
    using step_job_invariant [of w ev] by simp
qed

theorem job_invariant_of_histories_witness:
  "job_invariant completed_job \<and> status completed_job = COMPLETED
   \<and> result completed_job = Some (js ''summary text'') \<and> error completed_job = None"
proof -
  have "completed_job \<in> ran (docs (run scenario_history))"
    using completed_world_docs by (simp add: run_scenario_history ranI)
  moreover have "\<forall>ev\<in>set scenario_history. one_outcome ev"
    by (simp add: scenario_history_def truthy_def js_def)
  ultimately have "job_invariant completed_job"
    using job_invariant_of_histories [of scenario_history] by blast
  then show ?thesis
    by (simp add: completed_job_def scenario_job_def)
qed

text \<open>
  The report \<open>{jobId: "A", result: "ok", error: "boom"}\<close> passes the schema; applied to
  the pending job \<open>A\<close> it leaves a \<open>FAILED\<close> record with both \<open>result\<close> and \<open>error\<close>
  set.
\<close>

theorem both_fields_break_invariant:
  "docs (run both_history) job_A
     = Some (finalized random_zero random_zero 2 scenario_job (Some (js ''ok'')) (Some (js ''boom'')))
   \<and> status (finalized random_zero random_zero 2 scenario_job (Some (js ''ok'')) (Some (js ''boom''))) = FAILED
   \<and> result (finalized random_zero random_zero 2 scenario_job (Some (js ''ok'')) (Some (js ''boom''))) = Some (js ''ok'')
   \<and> error (finalized random_zero random_zero 2 scenario_job (Some (js ''ok'')) (Some (js ''boom''))) = Some (js ''boom'')
   \<and> \<not> job_invariant (finalized random_zero random_zero 2 scenario_job (Some (js ''ok'')) (Some (js ''boom'')))"
proof -
  have "run both_history = step pending_world
      (HandleWebhookCallback random_zero random_zero 2 job_A (Some (js ''ok'')) (Some (js ''boom'')))"
    by (simp add: run_def both_history_def pending_world_def)
  then have "docs (run both_history) job_A
     = Some (finalized random_zero random_zero 2 scenario_job (Some (js ''ok'')) (Some (js ''boom'')))"
    by (simp add: handleWebhookCallback_pending
        [OF cast_job_A pending_world_docs scenario_job_pending])
  then show ?thesis
    by (simp add: finalized_def job_invariant_def truthy_def or_null_def js_def)
qed

section \<open>Usage metadata\<close>

text \<open>
  The rounding is to nearest, ties to even: \<open>shift_round x sh\<close> is within half a unit
  of \<open>x / 2 ^ sh\<close>, and even when \<open>x / 2 ^ sh\<close> lies halfway between two
  integers. A number of at most 53 bits is left as it is, and \<open>to_double\<close> is within
  half a unit in the last place of the exact value.
\<close>

lemma shift_round_nearest:
  "2 * \<bar>shift_round x sh * 2 ^ sh - x\<bar> \<le> 2 ^ sh"
proof -
  define q where "q = x div 2 ^ sh"
  define r where "r = x mod 2 ^ sh"
  define p :: int where "p = 2 ^ sh"
  have p: "0 < p" by (simp add: p_def)
  have x: "x = q * p + r"
    unfolding q_def r_def p_def by (rule div_mult_mod_eq [symmetric])
  have r: "0 \<le> r" "r < p"
    using p by (simp_all add: r_def p_def)
  have "shift_round x sh = (if 2 * r < p then q else if p < 2 * r then q + 1
      else if even q then q else q + 1)"
    by (simp add: shift_round_def Let_def q_def r_def p_def)
  then have "2 * \<bar>shift_round x sh * p - x\<bar> \<le> p"
    using r by (auto simp: x algebra_simps)
  then show ?thesis by (simp add: p_def)
qed

lemma shift_round_tie_even:
  assumes "2 * (x mod 2 ^ sh) = 2 ^ sh"
  shows "even (shift_round x sh)"
  using assms by (simp add: shift_round_def Let_def)

lemma to_double_exact:
  assumes "floorlog 2 (nat \<bar>m\<bar>) \<le> 53"
  shows "to_double m e = Double m e"
  using assms by (simp add: to_double_def)

lemma to_double_nearest:
  "2 * \<bar>double_value (to_double m e) - of_int m * 2 powi e\<bar>
     \<le> 2 powi (e + int (floorlog 2 (nat \<bar>m\<bar>) - 53))"
proof (cases "floorlog 2 (nat \<bar>m\<bar>) \<le> 53")
  case True
  then show ?thesis by (simp add: to_double_def)
next
  case False
  define sh where "sh = floorlog 2 (nat \<bar>m\<bar>) - 53"
  define r where "r = shift_round \<bar>m\<bar> sh"
  have pw: "(2::rat) powi (e + int sh) = 2 powi e * 2 ^ sh"
    by (simp add: power_int_add)
  have td: "to_double m e = Double (sgn m * r) (e + int sh)"
    using False by (simp add: to_double_def sh_def r_def Let_def)
  have "2 * \<bar>r * 2 ^ sh - \<bar>m\<bar>\<bar> \<le> 2 ^ sh"
    unfolding r_def by (rule shift_round_nearest)
  moreover have "m \<noteq> 0"
    using False by (auto simp: floorlog_def)
  then have "\<bar>sgn m * r * 2 ^ sh - m\<bar> = \<bar>r * 2 ^ sh - \<bar>m\<bar>\<bar>"
    by (cases "m < 0") (auto simp: sgn_if abs_if)
  ultimately have i: "2 * \<bar>sgn m * r * 2 ^ sh - m\<bar> \<le> 2 ^ sh"
    by simp
  have "double_value (to_double m e) - of_int m * 2 powi e
      = of_int (sgn m * r * 2 ^ sh - m) * 2 powi e"
    by (simp add: td pw algebra_simps)
  then have "2 * \<bar>double_value (to_double m e) - of_int m * 2 powi e\<bar>
      = of_int (2 * \<bar>sgn m * r * 2 ^ sh - m\<bar>) * 2 powi e"
    by (simp add: abs_mult)
  also have "\<dots> \<le> of_int (2 ^ sh) * 2 powi e"
    using i by (intro mult_right_mono) (simp_all only: of_int_le_iff, simp)
  also have "\<dots> = 2 powi (e + int sh)"
    by (simp add: pw)
  finally show ?thesis by (simp add: sh_def)
qed

lemma or_zero_Some: "or_zero (Some k) = k"
  by (simp add: or_zero_def)

lemma mock_metadata_fields:
  "mock_metadata u1 u2 =
     \<lparr>promptTokens = Some (math_floor (js_times u1 (of_integer 100)) + 10),
      completionTokens = Some (math_floor (js_times u2 (of_integer 200)) + 50),
      totalTokens = Some ((math_floor (js_times u1 (of_integer 100)) + 10)
          + (math_floor (js_times u2 (of_integer 200)) + 50)),
      estimatedCost = Some (js_times (of_integer ((math_floor (js_times u1 (of_integer 100)) + 10)
          + (math_floor (js_times u2 (of_integer 200)) + 50))) cost_per_token)\<rparr>"
  by (simp add: mock_metadata_def Let_def or_zero_Some)

lemma cost_per_token_nearest:
  "\<bar>double_value cost_per_token - 2 / 100000\<bar> \<le> 2 powi (- 69)"
  "2 ^ 52 \<le> (5902958103587057 :: int)" "(5902958103587057 :: int) < 2 ^ 53"
  by (simp_all add: cost_per_token_def power_int_minus)

text \<open>
  The cost computed for \<open>t\<close> tokens is not the real number \<open>t * 0.00002\<close>, which no
  binary64 value equals for \<open>0 < t < 3125\<close>; it is within \<open>3 * t * 2 ^ -69\<close> of it.
\<close>

lemma floorlog_mult_le:
  assumes "0 < a" and "b < 2 ^ n"
  shows "floorlog 2 (a * b) \<le> floorlog 2 a + n"
proof -
  have "a < 2 ^ floorlog 2 a"
    using floorlog_bounds [of a 2] assms(1) by simp
  then have "a * b < 2 ^ floorlog 2 a * 2 ^ n"
    using assms by (intro mult_strict_mono) simp_all
  then have "a * b < 2 ^ (floorlog 2 a + n)"
    by (simp add: power_add)
  then show ?thesis
    by (intro floorlog_leI) simp_all
qed

lemma pow_floorlog_le:
  assumes "0 < a"
  shows "(2::nat) ^ floorlog 2 a \<le> 2 * a"
proof -
  have "2 ^ (floorlog 2 a - 1) \<le> a"
    using floorlog_bounds [of a 2] assms by simp
  moreover have "0 < floorlog 2 a"
    using assms by (simp add: floorlog_def)
  then have "(2::nat) ^ floorlog 2 a = 2 * 2 ^ (floorlog 2 a - 1)"
    by (cases "floorlog 2 a") simp_all
  ultimately show ?thesis by simp
qed

lemma js_times_cost_error:
  "\<bar>double_value (js_times (of_integer t) cost_per_token) - of_int t * (2 / 100000)\<bar>
     \<le> 3 * \<bar>of_int t\<bar> * 2 powi (- 69)"
proof -
  define M :: int where "M = 5902958103587057"
  define len where "len = floorlog 2 (nat \<bar>t * M\<bar>)"
  define v where "v = double_value (js_times (of_integer t) cost_per_token)"
  have jt: "js_times (of_integer t) cost_per_token = to_double (t * M) (- 68)"
    by (simp add: of_integer_def cost_per_token_def M_def)
  have rep: "\<bar>(of_int (t * M) :: rat) * 2 powi (- 68) - of_int t * (2 / 100000)\<bar>
      \<le> \<bar>of_int t\<bar> * 2 powi (- 69)"
  proof -
    have "(of_int (t * M) :: rat) * 2 powi (- 68) - of_int t * (2 / 100000)
        = of_int t * (of_int M * 2 powi (- 68) - 2 / 100000)"
      by (simp add: algebra_simps)
    then have "\<bar>(of_int (t * M) :: rat) * 2 powi (- 68) - of_int t * (2 / 100000)\<bar>
        = \<bar>of_int t\<bar> * \<bar>of_int M * 2 powi (- 68) - 2 / 100000\<bar>"
      by (simp only: abs_mult)
    moreover have "\<bar>(of_int M :: rat) * 2 powi (- 68) - 2 / 100000\<bar> \<le> 2 powi (- 69)"
      by (simp add: M_def power_int_minus)
    ultimately show ?thesis
      by (simp only: mult_left_mono abs_ge_zero)
  qed
  have pw: "(2::rat) powi (e + int n) = 2 powi e * 2 ^ n" for e n
    by (simp add: power_int_add)
  have rnd: "\<bar>v - of_int (t * M) * 2 powi (- 68)\<bar> \<le> 2 * \<bar>of_int t\<bar> * 2 powi (- 69)"
  proof (cases "len \<le> 53")
    case True
    then have "v = of_int (t * M) * 2 powi (- 68)"
      by (simp add: v_def jt to_double_exact len_def)
    then show ?thesis by simp
  next
    case False
    then have t0: "t \<noteq> 0"
      by (auto simp: len_def floorlog_def)
    have "nat \<bar>t * M\<bar> = nat \<bar>t\<bar> * nat M"
      by (simp add: abs_mult nat_mult_distrib M_def)
    moreover have "nat M < 2 ^ 53"
      by (simp add: M_def)
    ultimately have "len \<le> floorlog 2 (nat \<bar>t\<bar>) + 53"
      using floorlog_mult_le [of "nat \<bar>t\<bar>" "nat M" 53] t0 by (simp add: len_def)
    then have "(2::nat) ^ (len - 53) \<le> 2 ^ floorlog 2 (nat \<bar>t\<bar>)"
      by (intro power_increasing) simp_all
    also have "\<dots> \<le> 2 * nat \<bar>t\<bar>"
      using t0 by (intro pow_floorlog_le) simp
    finally have "(2::nat) ^ (len - 53) \<le> 2 * nat \<bar>t\<bar>" .
    then have "(of_nat (2 ^ (len - 53)) :: rat) \<le> of_nat (2 * nat \<bar>t\<bar>)"
      by (simp only: of_nat_le_iff)
    then have p: "(2::rat) ^ (len - 53) \<le> 2 * \<bar>of_int t\<bar>"
      by simp
    have "2 * \<bar>v - of_int (t * M) * 2 powi (- 68)\<bar> \<le> 2 powi (- 68 + int (len - 53))"
      using to_double_nearest [of "t * M" "- 68"] by (simp add: v_def jt len_def)
    also have "\<dots> = 2 powi (- 68) * 2 ^ (len - 53)"
      by (rule pw)
    also have "\<dots> \<le> 2 powi (- 68) * (2 * \<bar>of_int t\<bar>)"
      using p by (intro mult_left_mono) simp_all
    finally have "\<bar>v - of_int (t * M) * 2 powi (- 68)\<bar> \<le> 2 powi (- 68) * \<bar>of_int t\<bar>"
      by simp
    also have "\<dots> = 2 * \<bar>of_int t\<bar> * 2 powi (- 69)"
      by (simp add: power_int_minus)
    finally show ?thesis .
  qed
  have "\<bar>v - of_int t * (2 / 100000)\<bar>
      \<le> \<bar>v - of_int (t * M) * 2 powi (- 68)\<bar>
        + \<bar>of_int (t * M) * 2 powi (- 68) - of_int t * (2 / 100000)\<bar>"
    by simp
  also have "\<dots> \<le> 2 * \<bar>of_int t\<bar> * 2 powi (- 69) + \<bar>of_int t\<bar> * 2 powi (- 69)"
    using rnd rep by (rule add_mono)
  finally show ?thesis
    by (simp add: v_def)
qed

lemma webhookCallbackSchema_reads_three_properties:
  assumes "get_prop (JObject ps) (js ''jobId'') = get_prop (JObject ps') (js ''jobId'')"
    and "get_prop (JObject ps) (js ''result'') = get_prop (JObject ps') (js ''result'')"
    and "get_prop (JObject ps) (js ''error'') = get_prop (JObject ps') (js ''error'')"
  shows "webhookCallbackSchema (JObject ps) = webhookCallbackSchema (JObject ps')"
  unfolding webhookCallbackSchema_def js_value.case assms ..

text \<open>
  C10, as the code has it. The metadata a finalizing callback persists, on the
  \<open>COMPLETED\<close> and on the \<open>FAILED\<close> path alike, is what the handler builds from its
  two random draws. In it \<open>totalTokens = promptTokens + completionTokens\<close>, and
  \<open>estimatedCost\<close> is the binary64 product of \<open>totalTokens\<close> and the binary64 value
  of the literal \<open>0.00002\<close>, rounded to nearest: a number within
  \<open>3 * totalTokens * 2 ^ -69\<close> of \<open>totalTokens * 0.00002\<close>. The callback route reads
  \<open>jobId\<close>, \<open>result\<close> and \<open>error\<close> of the body and nothing else: two bodies that
  agree on these three properties, whatever \<open>metadata\<close> they carry, get the same answer
  and leave the same state.
\<close>

theorem callback_metadata_generated_by_handler:
  "(stored w jobId = Some job \<and> status job = PENDING \<longrightarrow>
      (\<exists>job' w'. handleWebhookCallback u1 u2 now w jobId res err = (Inr (Some job'), w')
         \<and> stored w' jobId = Some job'
         \<and> status job' = (if truthy err then FAILED else COMPLETED)
         \<and> metadata job' = mock_metadata u1 u2))
   \<and> (\<exists>p c. promptTokens (mock_metadata u1 u2) = Some p
         \<and> completionTokens (mock_metadata u1 u2) = Some c
         \<and> totalTokens (mock_metadata u1 u2) = Some (p + c)
         \<and> estimatedCost (mock_metadata u1 u2)
             = Some (js_times (of_integer (p + c)) cost_per_token)
         \<and> \<bar>double_value (js_times (of_integer (p + c)) cost_per_token)
              - of_int (p + c) * (2 / 100000)\<bar> \<le> 3 * \<bar>of_int (p + c)\<bar> * 2 powi (- 69))
   \<and> (get_prop (JObject ps) (js ''jobId'') = get_prop (JObject ps') (js ''jobId'')
       \<and> get_prop (JObject ps) (js ''result'') = get_prop (JObject ps') (js ''result'')
       \<and> get_prop (JObject ps) (js ''error'') = get_prop (JObject ps') (js ''error'') \<longrightarrow>
       post_webhook_callback s production u1 u2 now w providedSecret (JObject ps)
         = post_webhook_callback s production u1 u2 now w providedSecret (JObject ps'))"
proof (intro conjI impI)
  assume a: "stored w jobId = Some job \<and> status job = PENDING"
  then obtain k where k: "castObjectId jobId = Inr k" and d: "docs w k = Some job"
    by (auto elim: stored_cast)
  from a have "status job = PENDING" ..
  then show "\<exists>job' w'. handleWebhookCallback u1 u2 now w jobId res err = (Inr (Some job'), w')
         \<and> stored w' jobId = Some job'
         \<and> status job' = (if truthy err then FAILED else COMPLETED)
         \<and> metadata job' = mock_metadata u1 u2"
    using handleWebhookCallback_pending [OF k d, of u1 u2 now res err] k
    by (simp add: finalized_def stored_def)
next
  show "\<exists>p c. promptTokens (mock_metadata u1 u2) = Some p
         \<and> completionTokens (mock_metadata u1 u2) = Some c
         \<and> totalTokens (mock_metadata u1 u2) = Some (p + c)
         \<and> estimatedCost (mock_metadata u1 u2)
             = Some (js_times (of_integer (p + c)) cost_per_token)
         \<and> \<bar>double_value (js_times (of_integer (p + c)) cost_per_token)
              - of_int (p + c) * (2 / 100000)\<bar> \<le> 3 * \<bar>of_int (p + c)\<bar> * 2 powi (- 69)"
    using js_times_cost_error
      [of "(math_floor (js_times u1 (of_integer 100)) + 10)
          + (math_floor (js_times u2 (of_integer 200)) + 50)"]
    by (simp only: mock_metadata_fields JobMetadata.select_convs) blast
next
  assume "get_prop (JObject ps) (js ''jobId'') = get_prop (JObject ps') (js ''jobId'')
       \<and> get_prop (JObject ps) (js ''result'') = get_prop (JObject ps') (js ''result'')
       \<and> get_prop (JObject ps) (js ''error'') = get_prop (JObject ps') (js ''error'')"
  then have "webhookCallbackSchema (JObject ps) = webhookCallbackSchema (JObject ps')"
    using webhookCallbackSchema_reads_three_properties [of ps ps'] by blast
  then have "validateBody webhookCallbackSchema (JObject ps)
      = validateBody webhookCallbackSchema (JObject ps')"
    unfolding validateBody_def by (rule arg_cong)
  then show "post_webhook_callback s production u1 u2 now w providedSecret (JObject ps)
         = post_webhook_callback s production u1 u2 now w providedSecret (JObject ps')"
    unfolding post_webhook_callback_def by (rule arg_cong)
qed

lemma cost_of_60_tokens:
  "js_times (of_integer 60) cost_per_token = Double 5534023222112866 (- 62)"
  by (simp add: of_integer_def cost_per_token_def to_double_def compute_floorlog shift_round_def
      Let_def)

lemma floor_of_random_zero:
  "math_floor (js_times random_zero (of_integer 100)) = 0"
  "math_floor (js_times random_zero (of_integer 200)) = 0"
  by (simp_all add: random_zero_def of_integer_def to_double_def floorlog_def Let_def)

lemma random_zero_metadata:
  "mock_metadata random_zero random_zero =
       \<lparr>promptTokens = Some 10, completionTokens = Some 50, totalTokens = Some 60,
        estimatedCost = Some (Double 5534023222112866 (- 62))\<rparr>"
  by (simp add: mock_metadata_fields floor_of_random_zero cost_of_60_tokens)

theorem callback_metadata_generated_by_handler_witness:
  "(\<exists>job' w'. handleWebhookCallback random_zero random_zero 2 pending_world job_A None
          (Some (js ''timeout'')) = (Inr (Some job'), w')
      \<and> stored w' job_A = Some job' \<and> status job' = FAILED
      \<and> metadata job' =
          \<lparr>promptTokens = Some 10, completionTokens = Some 50, totalTokens = Some 60,
           estimatedCost = Some (Double 5534023222112866 (- 62))\<rparr>)
   \<and> double_value (Double 5534023222112866 (- 62)) = 2767011611056433 / 2305843009213693952
   \<and> post_webhook_callback example_secret False random_zero random_zero 2 pending_world
        (HeaderValue example_secret) report_with_metadata
     = post_webhook_callback example_secret False random_zero random_zero 2 pending_world
        (HeaderValue example_secret) report_without_metadata"
proof -
  let ?with = "[(js ''jobId'', JString job_A), (js ''result'', JString (js ''summary text'')),
     (js ''metadata'', JObject [(js ''totalTokens'', JNumber (of_integer 7))])]"
  let ?without = "[(js ''jobId'', JString job_A),
     (js ''result'', JString (js ''summary text''))]"
  note t = callback_metadata_generated_by_handler
      [of pending_world job_A scenario_job random_zero random_zero 2 None
        "Some (js ''timeout'')" ?with ?without example_secret False "HeaderValue example_secret"]
  have f: "truthy (Some (js ''timeout''))"
    by (simp add: truthy_def js_def)
  have "\<exists>job' w'. handleWebhookCallback random_zero random_zero 2 pending_world job_A None
          (Some (js ''timeout'')) = (Inr (Some job'), w')
      \<and> stored w' job_A = Some job' \<and> status job' = FAILED
      \<and> metadata job' = mock_metadata random_zero random_zero"
    using t pending_world_docs scenario_job_pending f by (simp add: stored_job_A)
  then have a: "\<exists>job' w'. handleWebhookCallback random_zero random_zero 2 pending_world job_A
          None (Some (js ''timeout'')) = (Inr (Some job'), w')
      \<and> stored w' job_A = Some job' \<and> status job' = FAILED
      \<and> metadata job' =
          \<lparr>promptTokens = Some 10, completionTokens = Some 50, totalTokens = Some 60,
           estimatedCost = Some (Double 5534023222112866 (- 62))\<rparr>"
    unfolding random_zero_metadata .
  have b: "double_value (Double 5534023222112866 (- 62))
      = 2767011611056433 / 2305843009213693952"
    by (simp add: power_int_minus)
  have k: "get_prop (JObject ?with) (js ''jobId'') = get_prop (JObject ?without) (js ''jobId'')"
    "get_prop (JObject ?with) (js ''result'') = get_prop (JObject ?without) (js ''result'')"
    "get_prop (JObject ?with) (js ''error'') = get_prop (JObject ?without) (js ''error'')"
    by (simp_all add: get_prop_def js_def)
  have w: "report_with_metadata = JObject ?with"
    by (simp add: report_with_metadata_def success_report_def)
  have c: "post_webhook_callback example_secret False random_zero random_zero 2 pending_world
        (HeaderValue example_secret) report_with_metadata
     = post_webhook_callback example_secret False random_zero random_zero 2 pending_world
        (HeaderValue example_secret) report_without_metadata"
    unfolding w report_without_metadata_def using t k by blast
  from a b c show ?thesis by blast
qed

text \<open>
  With both draws 0 the handler counts 60 tokens and stores the cost
  \<open>5534023222112866 * 2 ^ -62\<close>, which JavaScript prints as 0.0012000000000000001:
  it is not \<open>60 * 0.00002\<close>.
\<close>

theorem estimated_cost_not_exact:
  "totalTokens (mock_metadata random_zero random_zero) = Some 60
   \<and> estimatedCost (mock_metadata random_zero random_zero)
       = Some (Double 5534023222112866 (- 62))
   \<and> double_value (Double 5534023222112866 (- 62)) \<noteq> 60 * (2 / 100000)"
  by (simp add: random_zero_metadata power_int_minus)

end
